theory Spec2Isabelle
  imports Main "HOL-Library.Word" "HOL-Library.Char_ord" "HOL-Library.List_Lexorder"
begin

section \<open>Basic data\<close>

text \<open>
  Go's \<^verbatim>\<open>string\<close> and \<^verbatim>\<open>[]byte\<close> are both byte sequences; both are
  modelled as lists of 8-bit characters, so the conversions \<^verbatim>\<open>[]byte(s)\<close> and
  \<^verbatim>\<open>string(b)\<close> are the identity. A nil slice and an empty slice are both \<open>[]\<close>:
  the code only ever looks at their length.
\<close>

type_synonym bytes = "char list"

text \<open>\<^verbatim>\<open>uuid.UUID\<close> is a 16-byte array.\<close>

type_synonym UUID = "128 word"

text \<open>
  A configuration bag is a Go \<^verbatim>\<open>map[string]string\<close>. Reading a key that is absent
  yields the zero value, the empty string.
\<close>

type_synonym options = "string \<rightharpoonup> string"

definition get :: "options \<Rightarrow> string \<Rightarrow> string" where
  "get m k = (case m k of None \<Rightarrow> [] | Some v \<Rightarrow> v)"

subsection \<open>Errors\<close>

text \<open>
  The error of \<^verbatim>\<open>strconv.Atoi\<close> is a \<^verbatim>\<open>*strconv.NumError\<close>: the function name,
  the input text and the kind of failure.
\<close>

datatype num_err_kind = ErrSyntax | ErrRange

record NumError =
  Func :: string
  Num :: string
  Err :: num_err_kind

text \<open>
  Every other error of the modelled code is built by \<^verbatim>\<open>fmt.Errorf\<close>. There is one
  constructor for each format string of the sources; its arguments are the values the
  format interpolates. \<open>External\<close> is an error produced by a collaborator outside
  the sources (a transform stage, an authenticator, a server).
\<close>

datatype error =
    External string
  | NameRequired
      \<comment> \<open>\<^verbatim>\<open>a listener name must be provided\<close>\<close>
  | InterfaceRequired
      \<comment> \<open>\<^verbatim>\<open>a network interface address must be provided\<close>\<close>
  | InvalidInterface string
      \<comment> \<open>\<^verbatim>\<open>%s is not a valid network interface\<close>\<close>
  | PortRequired
      \<comment> \<open>\<^verbatim>\<open>a network interface port must be provided\<close>\<close>
  | PortConversion NumError
      \<comment> \<open>\<^verbatim>\<open>there was an error converting the port number to an integer: %s\<close>\<close>
  | UnhandledTransform string
      \<comment> \<open>\<^verbatim>\<open>pkg/listeners/tcp.NewTCPListener(): unhandled transform type: %s\<close>\<close>
  | AuthenticatorError error
      \<comment> \<open>\<^verbatim>\<open>pkg/listeners/tcp.NewTCPListener(): there was an error getting the authenticator: %s\<close>\<close>
  | ConstructError error
      \<comment> \<open>\<^verbatim>\<open>pkg/listeners.Construct(): there was an error calling the transformer construct function: %s\<close>\<close>
  | UnhandledDataType string
      \<comment> \<open>\<^verbatim>\<open>pkg/listeners.Deconstruct(): unhandled data type for Deconstruct(): %T\<close>\<close>
  | NoBase
      \<comment> \<open>\<^verbatim>\<open>pkg/listeners/tcp.Deconstruct(): unable to transform data into messages.Base structure\<close>\<close>
  | UnhandledOption string
      \<comment> \<open>\<^verbatim>\<open>pkg/listeners/tcp.SetOptions(): unhandled option %s\<close>\<close>
  | ProtocolKeyMissing
      \<comment> \<open>\<^verbatim>\<open>pkg/services/listeners.NewListener(): the options map did not contain the "Protocol" key\<close>\<close>
  | NewListenerError error
      \<comment> \<open>\<^verbatim>\<open>pkg/services/listeners.NewListener(): %s\<close>\<close>
  | UnhandledServerType int
      \<comment> \<open>\<^verbatim>\<open>pkg/services/listeners.NewListener(): unhandled server type %d\<close>\<close>
  | DefaultOptionsUnhandled string
      \<comment> \<open>\<^verbatim>\<open>pkg/services/listeners.DefaultOptions(): unhandled server type: %s\<close>\<close>
  | ListenerNotFound UUID
      \<comment> \<open>\<^verbatim>\<open>pkg/services/listeners.GetListenerByID(): could not find listener %s\<close>\<close>
  | RestartError error
      \<comment> \<open>\<^verbatim>\<open>pkg/services/listeners.Restart(): %s\<close> (also the text used by Stop)\<close>
  | StartError error
      \<comment> \<open>\<^verbatim>\<open>pkg/services/listeners.Start(): %s\<close>\<close>
  | StartUnhandledProtocol int
      \<comment> \<open>\<^verbatim>\<open>pkg/services/listeners.Start(): unhandled listener protocol: %d\<close>\<close>

text \<open>
  A call either returns an error value or panics. Calling a method of a nil interface
  value and dereferencing a nil pointer are run-time panics in Go.
\<close>

datatype fault = Error error | Panic

subsection \<open>Library functions\<close>

text \<open>
  \<^verbatim>\<open>strings.ToLower\<close> has two paths. When every byte of the text is below
  \<^verbatim>\<open>utf8.RuneSelf\<close> (128), each letter from A to Z (codes 65 to 90) is moved up by 32,
  the distance from A to a; in that range bit 5 of the code is clear, so adding 32 sets
  it and changes nothing else. Otherwise the result is
  \<^verbatim>\<open>strings.Map(unicode.ToLower, s)\<close>, which folds by the case tables of Unicode
  (among others the dotted capital I to i and the Kelvin sign to k); that function is
  taken as a parameter, the first argument of \<open>ToLower\<close>.
\<close>

type_synonym folding = "string \<Rightarrow> string"

definition is_ascii :: "char \<Rightarrow> bool" where
  "is_ascii c = ((of_char c :: nat) < 128)"

definition lower :: "char \<Rightarrow> char" where
  "lower c =
     (let n = (of_char c :: nat) in
      if 65 \<le> n \<and> n \<le> 90
      then (case c of Char b0 b1 b2 b3 b4 b5 b6 b7 \<Rightarrow> Char b0 b1 b2 b3 b4 True b6 b7)
      else c)"

definition ToLower :: "folding \<Rightarrow> string \<Rightarrow> string" where
  "ToLower Map_unicode_ToLower s =
     (if list_all is_ascii s then map lower s else Map_unicode_ToLower s)"

text \<open>
  \<^verbatim>\<open>strings.Split(s, ",")\<close> for a one-character separator: the pieces between the
  separators; the empty string splits into one empty piece.
\<close>

fun Split :: "string \<Rightarrow> char \<Rightarrow> string list" where
  "Split [] sep = [[]]"
| "Split (c # cs) sep =
     (if c = sep then [] # Split cs sep
      else (case Split cs sep of [] \<Rightarrow> [[c]] | w # ws \<Rightarrow> (c # w) # ws))"

text \<open>
  \<^verbatim>\<open>strconv.Atoi\<close> on a 64-bit platform. \<open>ParseUint_loop\<close> is the digit loop of
  \<^verbatim>\<open>strconv.ParseUint\<close> for base 10 and 64 bits; \<open>Atoi\<close> adds the sign handling and
  the signed range check of \<^verbatim>\<open>strconv.ParseInt\<close>.
\<close>

definition is_digit :: "char \<Rightarrow> bool" where
  "is_digit c = (let n = (of_char c :: nat) in 48 \<le> n \<and> n \<le> 57)"

fun ParseUint_loop :: "string \<Rightarrow> nat \<Rightarrow> num_err_kind + nat" where
  "ParseUint_loop [] n = Inr n"
| "ParseUint_loop (c # cs) n =
     (if \<not> is_digit c then Inl ErrSyntax
      else if n \<ge> (2 ^ 64 - 1) div 10 + 1 then Inl ErrRange
      else (let n1 = n * 10 + (of_char c - 48) in
            if n1 > 2 ^ 64 - 1 then Inl ErrRange else ParseUint_loop cs n1))"

definition Atoi :: "string \<Rightarrow> NumError + int" where
  "Atoi s =
     (case s of
        [] \<Rightarrow> Inl \<lparr>Func = ''Atoi'', Num = s, Err = ErrSyntax\<rparr>
      | c # cs \<Rightarrow>
         (let neg = (c = CHR ''-'');
              body = (if c = CHR ''+'' \<or> c = CHR ''-'' then cs else s)
          in if body = [] then Inl \<lparr>Func = ''Atoi'', Num = s, Err = ErrSyntax\<rparr>
             else (case ParseUint_loop body 0 of
                     Inl k \<Rightarrow> Inl \<lparr>Func = ''Atoi'', Num = s, Err = k\<rparr>
                   | Inr un \<Rightarrow>
                       if \<not> neg \<and> un \<ge> 2 ^ 63 then Inl \<lparr>Func = ''Atoi'', Num = s, Err = ErrRange\<rparr>
                       else if neg \<and> un > 2 ^ 63 then Inl \<lparr>Func = ''Atoi'', Num = s, Err = ErrRange\<rparr>
                       else Inr (if neg then - int un else int un))))"

text \<open>
  \<^verbatim>\<open>sha256.Sum256\<close> returns a \<^verbatim>\<open>[32]byte\<close>, here a 256-bit word; \<open>slice32\<close> is the
  slice expression \<^verbatim>\<open>psk[:]\<close>, the 32 bytes of the array from the first to the last.
\<close>

definition slice32 :: "256 word \<Rightarrow> bytes" where
  "slice32 w = map (\<lambda>i. char_of (unat (drop_bit (8 * (31 - i)) w))) [0..<32]"

section \<open>Transformers and authenticators\<close>

text \<open>
  A value of the empty interface, as far as the listener inspects it: a byte slice, a
  string, a \<^verbatim>\<open>messages.Base\<close>, or a value of some other dynamic type (with the name
  that \<^verbatim>\<open>%T\<close> prints). The structure \<^verbatim>\<open>messages.Base\<close> is declared outside the
  sources at hand; the model is polymorphic in it (type \<open>'m\<close>).
\<close>

datatype 'm dyn = DBytes bytes | DString string | DBase 'm | DOther string

text \<open>
  The interface \<^verbatim>\<open>transformer.Transformer\<close>: \<^verbatim>\<open>Construct(data, key)\<close> returns bytes
  or an error, \<^verbatim>\<open>Deconstruct(data, key)\<close> returns a dynamically typed value or an
  error, \<^verbatim>\<open>String()\<close> the name of the transform.
\<close>

record 'm Transformer =
  tConstruct :: "'m dyn \<Rightarrow> bytes \<Rightarrow> error + bytes"
  tDeconstruct :: "bytes \<Rightarrow> bytes \<Rightarrow> error + 'm dyn"
  tString :: string

text \<open>The interface \<^verbatim>\<open>authenticators.Authenticator\<close>.\<close>

record 'm Authenticator =
  aAuthenticate :: "UUID \<Rightarrow> 'm dyn \<Rightarrow> error + 'm"
  aString :: string

section \<open>The TCP listener\<close>

text \<open>
  The structure \<^verbatim>\<open>tcp.Listener\<close>. A field of interface type holds \<open>None\<close> for the
  nil interface; so does an entry of the slice of transformers. The field \<^verbatim>\<open>id\<close> is
  named \<open>lid\<close> here.
\<close>

record 'm Listener =
  lid :: UUID
  auth :: "'m Authenticator option"
  transformers :: "'m Transformer option list"
  description :: string
  name :: string
  options :: options
  psk :: bytes
  iface :: string
  port :: int
  agentService :: "unit option"

text \<open>The zero value of the structure, which the named result of the factory starts as.\<close>

definition zero_Listener :: "'m Listener" where
  "zero_Listener =
     \<lparr>lid = 0, auth = None, transformers = [], description = [], name = [],
      options = Map.empty, psk = [], iface = [], port = 0, agentService = None\<rparr>"

text \<open>
  What the factory takes from outside the sources: the identifier drawn by
  \<^verbatim>\<open>uuid.NewV4\<close>, \<^verbatim>\<open>net.ParseIP\<close> (nil, here \<open>None\<close>, when the text is not an IP
  address), \<^verbatim>\<open>sha256.Sum256\<close>, the Unicode path of \<^verbatim>\<open>strings.ToLower\<close>, the two
  transform constructors, the two authenticator constructors (of which the OPAQUE one
  may fail) and the agent service.
\<close>

record 'm tcp_deps =
  NewV4 :: UUID
  Map_ToLower :: folding
  ParseIP :: "string \<Rightarrow> bytes option"
  Sum256 :: "bytes \<Rightarrow> 256 word"
  gob_NewEncoder :: "'m Transformer"
  aes_NewEncrypter :: "'m Transformer"
  opaque_NewAuthenticator :: "error + 'm Authenticator"
  none_NewAuthenticator :: "'m Authenticator"

text \<open>
  The loop over the names of \<^verbatim>\<open>Transforms\<close>. For \<^verbatim>\<open>gob-delegate\<close> the variable
  \<^verbatim>\<open>t\<close> keeps its zero value, the nil interface, and is appended like any other.
\<close>

fun add_transforms ::
  "'m tcp_deps \<Rightarrow> string list \<Rightarrow> 'm Transformer option list \<Rightarrow> error + 'm Transformer option list"
where
  "add_transforms d [] acc = Inr acc"
| "add_transforms d (transform # rest) acc =
     (let lt = ToLower (Map_ToLower d) transform in
      if lt = ''gob-base'' then add_transforms d rest (acc @ [Some (gob_NewEncoder d)])
      else if lt = ''gob-delegate'' then add_transforms d rest (acc @ [None])
      else if lt = ''aes'' then add_transforms d rest (acc @ [Some (aes_NewEncrypter d)])
      else Inl (UnhandledTransform transform))"

definition NewTCPListener :: "'m tcp_deps \<Rightarrow> options \<Rightarrow> error + 'm Listener" where
  "NewTCPListener d opts =
     (let l = zero_Listener\<lparr>lid := NewV4 d\<rparr>;
          l = l\<lparr>name := get opts ''Name''\<rparr>
      in if name l = [] then Inl NameRequired
      else
        let l = (case opts ''Description'' of None \<Rightarrow> l | Some v \<Rightarrow> l\<lparr>description := v\<rparr>);
            l = (case opts ''PSK'' of None \<Rightarrow> l | Some v \<Rightarrow> l\<lparr>psk := slice32 (Sum256 d v)\<rparr>)
        in if get opts ''Interface'' = [] then Inl InterfaceRequired
        else if ParseIP d (get opts ''Interface'') = None
          then Inl (InvalidInterface (get opts ''Interface''))
        else
          let l = l\<lparr>iface := get opts ''Interface''\<rparr>
          in if get opts ''Port'' = [] then Inl PortRequired
          else
            (case Atoi (get opts ''Port'') of
               Inl ne \<Rightarrow> Inl (PortConversion ne)
             | Inr p \<Rightarrow>
                (let l = l\<lparr>port := p\<rparr> in
                 case (case opts ''Transforms'' of
                         None \<Rightarrow> Inr (transformers l)
                       | Some v \<Rightarrow> add_transforms d (Split v CHR '','') (transformers l)) of
                   Inl e \<Rightarrow> Inl e
                 | Inr ts \<Rightarrow>
                    (let l = l\<lparr>transformers := ts\<rparr> in
                     case (case opts ''Authenticator'' of
                             None \<Rightarrow> Inr l
                           | Some v \<Rightarrow>
                               if ToLower (Map_ToLower d) v = ''opaque'' then
                                 (case opaque_NewAuthenticator d of
                                    Inl e \<Rightarrow> Inl (AuthenticatorError e)
                                  | Inr a \<Rightarrow> Inr (l\<lparr>auth := Some a\<rparr>))
                               else Inr (l\<lparr>auth := Some (none_NewAuthenticator d)\<rparr>)) of
                       Inl e \<Rightarrow> Inl e
                     | Inr l \<Rightarrow> Inr (l\<lparr>options := opts, agentService := Some ()\<rparr>)))))"

text \<open>The default option bag of the TCP listener, as a list in the order of the assignments.\<close>

definition tcp_DefaultOptions :: "(string \<times> string) list" where
  "tcp_DefaultOptions =
     [(''Name'', ''My TCP Listener''),
      (''Description'', ''Default TCP Listener''),
      (''Interface'', ''127.0.0.1''),
      (''Port'', ''7777''),
      (''PSK'', ''merlin''),
      (''Transforms'', ''aes,gob-base''),
      (''Protocol'', ''TCP''),
      (''Authenticator'', ''OPAQUE'')]"

text \<open>
  \<^verbatim>\<open>Authenticate\<close> calls the method of the interface value in \<^verbatim>\<open>l.auth\<close>; on the nil
  interface the call panics.
\<close>

definition Authenticate :: "'m Listener \<Rightarrow> UUID \<Rightarrow> 'm dyn \<Rightarrow> fault + 'm" where
  "Authenticate l agent data =
     (case auth l of
        None \<Rightarrow> Inl Panic
      | Some a \<Rightarrow> (case aAuthenticate a agent data of Inl e \<Rightarrow> Inl (Error e) | Inr m \<Rightarrow> Inr m))"

text \<open>
  The loop of \<^verbatim>\<open>Construct\<close>, counting \<^verbatim>\<open>i\<close> down from the length of the chain to 1.
  The third argument is \<^verbatim>\<open>i\<close>, the last the variable \<^verbatim>\<open>data\<close>. The index
  \<^verbatim>\<open>i-1\<close> is always within the slice.
\<close>

fun Construct_loop ::
  "'m Transformer option list \<Rightarrow> 'm \<Rightarrow> bytes \<Rightarrow> nat \<Rightarrow> bytes \<Rightarrow> fault + bytes"
where
  "Construct_loop ts msg key 0 data = Inr data"
| "Construct_loop ts msg key (Suc j) data =
     (case ts ! j of
        None \<Rightarrow> Inl Panic
      | Some t \<Rightarrow>
          (case (if Suc j = length ts then tConstruct t (DBase msg) key
                 else tConstruct t (DBytes data) key) of
             Inl e \<Rightarrow> Inl (Error (ConstructError e))
           | Inr d \<Rightarrow> Construct_loop ts msg key j d))"

definition Construct :: "'m Listener \<Rightarrow> 'm \<Rightarrow> bytes \<Rightarrow> fault + bytes" where
  "Construct l msg key =
     (let key = (if length key = 0 then psk l else key)
      in Construct_loop (transformers l) msg key (length (transformers l)) [])"

text \<open>
  The loop of \<^verbatim>\<open>Deconstruct\<close> over the chain, with the type switch on what a stage
  returned.
\<close>

fun Deconstruct_loop ::
  "'m Transformer option list \<Rightarrow> bytes \<Rightarrow> bytes \<Rightarrow> fault + 'm"
where
  "Deconstruct_loop [] data key = Inl (Error NoBase)"
| "Deconstruct_loop (transform # rest) data key =
     (case transform of
        None \<Rightarrow> Inl Panic
      | Some t \<Rightarrow>
          (case tDeconstruct t data key of
             Inl e \<Rightarrow> Inl (Error e)
           | Inr ret \<Rightarrow>
               (case ret of
                  DBytes b \<Rightarrow> Deconstruct_loop rest b key
                | DString s \<Rightarrow> Deconstruct_loop rest s key
                | DBase m \<Rightarrow> Inr m
                | DOther ty \<Rightarrow> Inl (Error (UnhandledDataType ty)))))"

definition Deconstruct :: "'m Listener \<Rightarrow> bytes \<Rightarrow> bytes \<Rightarrow> fault + 'm" where
  "Deconstruct l data key =
     (let key = (if length key = 0 then psk l else key)
      in Deconstruct_loop (transformers l) data key)"

definition Description :: "'m Listener \<Rightarrow> string" where
  "Description l = description l"

definition ID :: "'m Listener \<Rightarrow> UUID" where
  "ID l = lid l"

definition Name :: "'m Listener \<Rightarrow> string" where
  "Name l = name l"

definition Options :: "'m Listener \<Rightarrow> options" where
  "Options l = options l"

text \<open>The constants of package \<^verbatim>\<open>listeners\<close> that the sources declare.\<close>

definition UNKNOWN :: int where "UNKNOWN = 0"
definition HTTP :: int where "HTTP = 1"
definition TCP :: int where "TCP = 2"

definition Protocol :: "'m Listener \<Rightarrow> int" where
  "Protocol l = TCP"

definition PSK :: "'m Listener \<Rightarrow> string" where
  "PSK l = psk l"

text \<open>
  An infrastructure server, as far as the service uses one: what its \<^verbatim>\<open>Stop\<close> returns
  (\<open>None\<close> for a nil error) and a name to tell servers apart.
\<close>

record ServerInterface =
  srvID :: UUID
  srvStop :: "error option"

text \<open>\<^verbatim>\<open>Server\<close> of a TCP listener returns the nil pointer.\<close>

definition Server :: "'m Listener \<Rightarrow> ServerInterface option" where
  "Server l = None"

text \<open>
  \<^verbatim>\<open>SetOption\<close> has a pointer receiver: it returns the error (\<open>None\<close> for nil) and
  the listener as it is after the call. Its first argument is the Unicode path of
  \<^verbatim>\<open>strings.ToLower\<close>.
\<close>

definition SetOption ::
  "folding \<Rightarrow> 'm Listener \<Rightarrow> string \<Rightarrow> string \<Rightarrow> error option \<times> 'm Listener"
where
  "SetOption u l option v =
     (let lo = ToLower u option in
      if lo = ''name'' then (None, l\<lparr>name := v\<rparr>)
      else if lo = ''description'' then (None, l\<lparr>description := v\<rparr>)
      else (Some (UnhandledOption option), l))"

definition Status :: "'m Listener \<Rightarrow> string" where
  "Status l = ''Created''"

section \<open>The order of the chain, as the specification words it\<close>

text \<open>
  The specification describes \<^verbatim>\<open>Construct\<close> as a pass over the chain in reverse
  configured order and \<^verbatim>\<open>Deconstruct\<close> as a pass in forward configured order; any
  stage failure aborts the whole chain. The definitions of this section follow those
  words, for a chain of transforms proper (none of them nil) and a key; they return an
  error or a result. They are compared with the loops of the code further down.
\<close>

text \<open>
  Each preceding transform is applied to the previous stage's output; the output of the
  last one applied is the result. The stages are given in the order of application.
\<close>

fun Construct_onward :: "'m Transformer list \<Rightarrow> bytes \<Rightarrow> bytes \<Rightarrow> error + bytes" where
  "Construct_onward [] prev key = Inr prev"
| "Construct_onward (t # ts) prev key =
     (case tConstruct t (DBytes prev) key of
        Inl e \<Rightarrow> Inl (ConstructError e)
      | Inr d \<Rightarrow> Construct_onward ts d key)"

text \<open>
  The last-configured transform is applied first, directly to the structured message;
  then the preceding ones, down to the first-configured one.
\<close>

definition Construct_reverse_order :: "'m Transformer list \<Rightarrow> 'm \<Rightarrow> bytes \<Rightarrow> error + bytes" where
  "Construct_reverse_order chain msg key =
     (case rev chain of
        [] \<Rightarrow> Inr []
      | last_configured # preceding \<Rightarrow>
          (case tConstruct last_configured (DBase msg) key of
             Inl e \<Rightarrow> Inl (ConstructError e)
           | Inr d \<Rightarrow> Construct_onward preceding d key))"

text \<open>
  The second argument is the latest output (at the start, the wire bytes). The first
  output that is a structured message is returned; when the chain is used up and no stage
  yielded one, decoding fails.
\<close>

fun Deconstruct_forward :: "'m Transformer list \<Rightarrow> 'm dyn \<Rightarrow> bytes \<Rightarrow> error + 'm" where
  "Deconstruct_forward ts (DBase m) key = Inr m"
| "Deconstruct_forward ts (DOther ty) key = Inl (UnhandledDataType ty)"
| "Deconstruct_forward [] out key = Inl NoBase"
| "Deconstruct_forward (t # ts) (DBytes b) key =
     (case tDeconstruct t b key of
        Inl e \<Rightarrow> Inl e
      | Inr out \<Rightarrow> Deconstruct_forward ts out key)"
| "Deconstruct_forward (t # ts) (DString b) key =
     (case tDeconstruct t b key of
        Inl e \<Rightarrow> Inl e
      | Inr out \<Rightarrow> Deconstruct_forward ts out key)"

definition Deconstruct_forward_order :: "'m Transformer list \<Rightarrow> bytes \<Rightarrow> bytes \<Rightarrow> error + 'm" where
  "Deconstruct_forward_order chain data key = Deconstruct_forward chain (DBytes data) key"

text \<open>
  The key that a call works with: the caller's, or the pre-shared key of the listener
  when the caller's is empty. An error that a call returns is a fault of the call.
\<close>

definition effective_key :: "'m Listener \<Rightarrow> bytes \<Rightarrow> bytes" where
  "effective_key l key = (if length key = 0 then psk l else key)"

definition returned :: "error + 'a \<Rightarrow> fault + 'a" where
  "returned r = (case r of Inl e \<Rightarrow> Inl (Error e) | Inr x \<Rightarrow> Inr x)"

section \<open>The round trip\<close>

text \<open>
  A stage inverts at an input and a key when its \<^verbatim>\<open>Construct\<close> succeeds there and its
  \<^verbatim>\<open>Deconstruct\<close>, with the same key, gives the input back. In a chain the
  last-configured stage is given structured messages and every other stage is given
  bytes: the \<^verbatim>\<open>Construct\<close> and \<^verbatim>\<open>Deconstruct\<close> of the stages of a listener are mutual
  inverses, for a key, when the last-configured stage inverts at every message and each
  stage before it inverts at every byte sequence, with the key the call works with. A
  nil stage has neither operation. An empty chain has no stage to fail this.
  \<open>roundtrip\<close> is the law \<^verbatim>\<open>Deconstruct(Construct(m, k), k) == m\<close>, without error.
\<close>

definition inverts_at :: "'m Transformer \<Rightarrow> 'm dyn \<Rightarrow> bytes \<Rightarrow> bool" where
  "inverts_at t x key =
     (case tConstruct t x key of Inl e \<Rightarrow> False | Inr d \<Rightarrow> tDeconstruct t d key = Inr x)"

definition inverts_messages :: "bytes \<Rightarrow> 'm Transformer option \<Rightarrow> bool" where
  "inverts_messages key s =
     (case s of None \<Rightarrow> False | Some t \<Rightarrow> (\<forall>m. inverts_at t (DBase m) key))"

definition inverts_bytes :: "bytes \<Rightarrow> 'm Transformer option \<Rightarrow> bool" where
  "inverts_bytes key s =
     (case s of None \<Rightarrow> False | Some t \<Rightarrow> (\<forall>b. inverts_at t (DBytes b) key))"

definition stages_invert :: "'m Listener \<Rightarrow> bytes \<Rightarrow> bool" where
  "stages_invert l key =
     (case rev (transformers l) of
        [] \<Rightarrow> True
      | last_configured # preceding \<Rightarrow>
          inverts_messages (effective_key l key) last_configured \<and>
          list_all (inverts_bytes (effective_key l key)) preceding)"

definition roundtrip :: "'m Listener \<Rightarrow> 'm \<Rightarrow> bytes \<Rightarrow> bool" where
  "roundtrip l m key =
     (case Construct l m key of Inl f \<Rightarrow> False | Inr d \<Rightarrow> Deconstruct l d key = Inr m)"

section \<open>The listener service\<close>

text \<open>
  Modelled from the spec: the listener types \<^verbatim>\<open>http.Listener\<close>, \<^verbatim>\<open>smb.Listener\<close> and
  \<^verbatim>\<open>udp.Listener\<close> are not among the sources. They are modelled by what the service
  reads of them: an identifier and a name, and for the HTTP listener the infrastructure
  server it owns. The SMB and UDP listeners have no embedded server.
\<close>

record http_Listener =
  hl_ID :: UUID
  hl_Name :: string
  hl_Server :: ServerInterface

record peer_Listener =
  pID :: UUID
  pName :: string

text \<open>
  A value of the interface \<^verbatim>\<open>listeners.Listener\<close>, as the service produces them: a
  pointer to a listener of one of the four packages.
\<close>

datatype 'm AnyListener =
    HTTPListener http_Listener
  | SMBListener peer_Listener
  | TCPListener "'m Listener"
  | UDPListener peer_Listener

text \<open>
  Modelled from the spec: the in-memory repositories are not among the sources. A
  repository owns a mapping from identifier to entry, enumerated in creation order;
  it supports adding (which overwrites an entry of the same identifier, and does not
  fail), lookup by identifier and full enumeration.
\<close>

type_synonym 'a repo = "(UUID \<times> 'a) list"

fun put :: "('k \<times> 'v) list \<Rightarrow> 'k \<Rightarrow> 'v \<Rightarrow> ('k \<times> 'v) list" where
  "put [] k v = [(k, v)]"
| "put ((k', v') # r) k v = (if k' = k then (k, v) # r else (k', v') # put r k v)"

definition repo_Add :: "'a repo \<Rightarrow> UUID \<Rightarrow> 'a \<Rightarrow> error + 'a repo" where
  "repo_Add r k x = Inr (put r k x)"

definition repo_ListenerByID :: "'a repo \<Rightarrow> UUID \<Rightarrow> error + 'a" where
  "repo_ListenerByID r k =
     (case map_of r k of None \<Rightarrow> Inl (External ''listener not found'') | Some x \<Rightarrow> Inr x)"

definition repo_Listeners :: "'a repo \<Rightarrow> 'a list" where
  "repo_Listeners r = map snd r"

text \<open>The structure \<^verbatim>\<open>ListenerService\<close>.\<close>

record 'm ListenerService =
  httpRepo :: "http_Listener repo"
  httpServerRepo :: "ServerInterface repo"
  smbRepo :: "peer_Listener repo"
  tcpRepo :: "'m Listener repo"
  udpRepo :: "peer_Listener repo"

definition NewListenerService :: "'m ListenerService" where
  "NewListenerService =
     \<lparr>httpRepo = [], httpServerRepo = [], smbRepo = [], tcpRepo = [], udpRepo = []\<rparr>"

text \<open>
  What the service takes from outside the sources: the environment of the TCP factory;
  the constants \<^verbatim>\<open>listeners.SMB\<close> and \<^verbatim>\<open>listeners.UDP\<close>, which the service names but
  the sources of package \<^verbatim>\<open>listeners\<close> do not declare; the factories of the HTTP
  server and of the HTTP, SMB and UDP listeners; \<^verbatim>\<open>servers.FromString\<close>; and the
  default option bags of the other packages (as lists of pairs with distinct keys).
\<close>

record 'm svc_deps =
  tcp_env :: "'m tcp_deps"
  SMB :: int
  UDP :: int
  httpServer_New :: "options \<Rightarrow> error + ServerInterface"
  http_NewHTTPListener :: "ServerInterface \<Rightarrow> options \<Rightarrow> error + http_Listener"
  smb_NewSMBListener :: "options \<Rightarrow> error + peer_Listener"
  udp_NewUDPListener :: "options \<Rightarrow> error + peer_Listener"
  servers_FromString :: "string \<Rightarrow> int"
  http_DefaultOptions :: "(string \<times> string) list"
  httpServer_GetDefaultOptions :: "int \<Rightarrow> (string \<times> string) list"
  smb_DefaultOptions :: "(string \<times> string) list"
  udp_DefaultOptions :: "(string \<times> string) list"

text \<open>The methods \<^verbatim>\<open>Protocol\<close> and \<^verbatim>\<open>Server\<close> of the interface, by dynamic type.\<close>

definition Protocol_of :: "'m svc_deps \<Rightarrow> 'm AnyListener \<Rightarrow> int" where
  "Protocol_of d x =
     (case x of
        HTTPListener h \<Rightarrow> HTTP
      | SMBListener s \<Rightarrow> SMB d
      | TCPListener t \<Rightarrow> Protocol t
      | UDPListener u \<Rightarrow> UDP d)"

definition Server_of :: "'m AnyListener \<Rightarrow> ServerInterface option" where
  "Server_of x =
     (case x of
        HTTPListener h \<Rightarrow> Some (hl_Server h)
      | SMBListener s \<Rightarrow> None
      | TCPListener t \<Rightarrow> Server t
      | UDPListener u \<Rightarrow> None)"

definition is_http_name :: "string \<Rightarrow> bool" where
  "is_http_name k =
     (k = ''http'' \<or> k = ''https'' \<or> k = ''h2c'' \<or> k = ''http2'' \<or> k = ''http3'')"

text \<open>
  \<^verbatim>\<open>NewListener\<close> returns its result and the service as it is after the call. The log
  line written on success is not modelled.
\<close>

definition NewListener ::
  "'m svc_deps \<Rightarrow> 'm ListenerService \<Rightarrow> options \<Rightarrow> (fault + 'm AnyListener) \<times> 'm ListenerService"
where
  "NewListener d ls opts =
     (case opts ''Protocol'' of
        None \<Rightarrow> (Inl (Error ProtocolKeyMissing), ls)
      | Some p \<Rightarrow>
          let k = ToLower (Map_ToLower (tcp_env d)) p in
          if is_http_name k then
            (case httpServer_New d opts of
               Inl e \<Rightarrow> (Inl (Error (NewListenerError e)), ls)
             | Inr hServer \<Rightarrow>
                 (case repo_Add (httpServerRepo ls) (srvID hServer) hServer of
                    Inl e \<Rightarrow> (Inl (Error (NewListenerError e)), ls)
                  | Inr sr \<Rightarrow>
                      let ls = ls\<lparr>httpServerRepo := sr\<rparr> in
                      (case http_NewHTTPListener d hServer opts of
                         Inl e \<Rightarrow> (Inl (Error (NewListenerError e)), ls)
                       | Inr hListener \<Rightarrow>
                           (case repo_Add (httpRepo ls) (hl_ID hListener) hListener of
                              Inl e \<Rightarrow> (Inl (Error (NewListenerError e)), ls)
                            | Inr r \<Rightarrow> (Inr (HTTPListener hListener), ls\<lparr>httpRepo := r\<rparr>)))))
          else if k = ''smb'' then
            (case smb_NewSMBListener d opts of
               Inl e \<Rightarrow> (Inl (Error (NewListenerError e)), ls)
             | Inr sListener \<Rightarrow>
                 (case repo_Add (smbRepo ls) (pID sListener) sListener of
                    Inl e \<Rightarrow> (Inl (Error (NewListenerError e)), ls)
                  | Inr r \<Rightarrow> (Inr (SMBListener sListener), ls\<lparr>smbRepo := r\<rparr>)))
          else if k = ''tcp'' then
            (case NewTCPListener (tcp_env d) opts of
               Inl e \<Rightarrow> (Inl (Error (NewListenerError e)), ls)
             | Inr tListener \<Rightarrow>
                 (case repo_Add (tcpRepo ls) (ID tListener) tListener of
                    Inl e \<Rightarrow> (Inl (Error (NewListenerError e)), ls)
                  | Inr r \<Rightarrow> (Inr (TCPListener tListener), ls\<lparr>tcpRepo := r\<rparr>)))
          else if k = ''udp'' then
            (case udp_NewUDPListener d opts of
               Inl e \<Rightarrow> (Inl (Error (NewListenerError e)), ls)
             | Inr uListener \<Rightarrow>
                 (case repo_Add (udpRepo ls) (pID uListener) uListener of
                    Inl e \<Rightarrow> (Inl (Error (NewListenerError e)), ls)
                  | Inr r \<Rightarrow> (Inr (UDPListener uListener), ls\<lparr>udpRepo := r\<rparr>)))
          else (Inl (Error (UnhandledServerType (servers_FromString d p))), ls))"

text \<open>
  \<^verbatim>\<open>listeners.FromString\<close>; the first argument is the Unicode path of
  \<^verbatim>\<open>strings.ToLower\<close>.
\<close>

definition FromString :: "folding \<Rightarrow> string \<Rightarrow> int" where
  "FromString u kind =
     (let k = ToLower u kind in
      if is_http_name k then HTTP
      else if k = ''tcp'' then TCP
      else UNKNOWN)"

text \<open>
  \<^verbatim>\<open>DefaultOptions\<close>. The default bags are Go maps; each is given as the list of its
  pairs (with distinct keys) in the order in which \<^verbatim>\<open>range\<close> happens to visit them,
  which Go leaves unspecified. \<open>put\<close> is the assignment
  \<^verbatim>\<open>listenerOptions[k] = v\<close>. The keys are sorted and the result, a new map, is filled
  in that order; being a map, the result holds no order of its keys.
\<close>

definition DefaultOptions :: "'m svc_deps \<Rightarrow> string \<Rightarrow> error + options" where
  "DefaultOptions d protocol =
     (let k = FromString (Map_ToLower (tcp_env d)) protocol in
      case (if k = HTTP then
              Inr (http_DefaultOptions d,
                   httpServer_GetDefaultOptions d (servers_FromString d protocol))
            else if k = SMB d then Inr (smb_DefaultOptions d, [])
            else if k = TCP then Inr (tcp_DefaultOptions, [])
            else if k = UDP d then Inr (udp_DefaultOptions d, [])
            else Inl (DefaultOptionsUnhandled protocol)) of
        Inl e \<Rightarrow> Inl e
      | Inr (listenerOptions, serverOptions) \<Rightarrow>
          let listenerOptions = fold (\<lambda>(k, v) m. put m k v) serverOptions listenerOptions;
              keys = sort (map fst listenerOptions)
          in Inr (fold (\<lambda>key options. options(key \<mapsto> get (map_of listenerOptions) key))
                    keys Map.empty))"

text \<open>\<^verbatim>\<open>Listener(id)\<close> of the service: the repositories are asked in turn.\<close>

definition ListenerService_Listener :: "'m ListenerService \<Rightarrow> UUID \<Rightarrow> error + 'm AnyListener" where
  "ListenerService_Listener ls k =
     (case repo_ListenerByID (httpRepo ls) k of
        Inr httpListener \<Rightarrow> Inr (HTTPListener httpListener)
      | Inl e1 \<Rightarrow>
     (case repo_ListenerByID (smbRepo ls) k of
        Inr smbListener \<Rightarrow> Inr (SMBListener smbListener)
      | Inl e2 \<Rightarrow>
     (case repo_ListenerByID (tcpRepo ls) k of
        Inr tcpListener \<Rightarrow> Inr (TCPListener tcpListener)
      | Inl e3 \<Rightarrow>
     (case repo_ListenerByID (udpRepo ls) k of
        Inr udpListener \<Rightarrow> Inr (UDPListener udpListener)
      | Inl e4 \<Rightarrow> Inl (ListenerNotFound k)))))"

definition Listeners :: "'m ListenerService \<Rightarrow> 'm AnyListener list" where
  "Listeners ls =
     map HTTPListener (repo_Listeners (httpRepo ls)) @
     map SMBListener (repo_Listeners (smbRepo ls)) @
     map TCPListener (repo_Listeners (tcpRepo ls)) @
     map UDPListener (repo_Listeners (udpRepo ls))"

text \<open>
  What a lifecycle call does to the infrastructure servers: it calls \<^verbatim>\<open>Stop\<close> of a
  server, or launches \<^verbatim>\<open>Start\<close> of a server in a goroutine. A call returns the list of
  what it did, in order, and its result (\<open>Inr ()\<close> for a nil error). Dereferencing the
  nil pointer that \<^verbatim>\<open>Server()\<close> returned is a panic.
\<close>

datatype effect = ServerStop UUID | ServerStart UUID

definition Restart :: "'m svc_deps \<Rightarrow> 'm ListenerService \<Rightarrow> UUID \<Rightarrow> effect list \<times> (fault + unit)" where
  "Restart d ls k =
     (case ListenerService_Listener ls k of
        Inl e \<Rightarrow> ([], Inl (Error (RestartError e)))
      | Inr listener \<Rightarrow>
          (case Server_of listener of
             None \<Rightarrow> ([], Inl Panic)
           | Some server \<Rightarrow>
               (case srvStop server of
                  Some e \<Rightarrow> ([ServerStop (srvID server)], Inl (Error (RestartError e)))
                | None \<Rightarrow> ([ServerStop (srvID server), ServerStart (srvID server)], Inr ()))))"

definition Start :: "'m svc_deps \<Rightarrow> 'm ListenerService \<Rightarrow> UUID \<Rightarrow> effect list \<times> (fault + unit)" where
  "Start d ls k =
     (case ListenerService_Listener ls k of
        Inl e \<Rightarrow> ([], Inl (Error (StartError e)))
      | Inr listener \<Rightarrow>
          let p = Protocol_of d listener in
          if p = HTTP then
            (case Server_of listener of
               None \<Rightarrow> ([], Inl Panic)
             | Some server \<Rightarrow> ([ServerStart (srvID server)], Inr ()))
          else if p = SMB d then ([], Inr ())
          else if p = TCP then ([], Inr ())
          else if p = UDP d then ([], Inr ())
          else ([], Inl (Error (StartUnhandledProtocol p))))"

definition Stop :: "'m svc_deps \<Rightarrow> 'm ListenerService \<Rightarrow> UUID \<Rightarrow> effect list \<times> (fault + unit)" where
  "Stop d ls k =
     (case ListenerService_Listener ls k of
        Inl e \<Rightarrow> ([], Inl (Error (RestartError e)))
      | Inr listener \<Rightarrow>
          if Protocol_of d listener = HTTP then
            (case Server_of listener of
               None \<Rightarrow> ([], Inl Panic)
             | Some server \<Rightarrow>
                 (case srvStop server of
                    Some e \<Rightarrow> ([ServerStop (srvID server)], Inl (Error e))
                  | None \<Rightarrow> ([ServerStop (srvID server)], Inr ())))
          else ([], Inr ()))"

section \<open>Predicates used in the statements\<close>

text \<open>
  The text that \<^verbatim>\<open>strconv.Atoi\<close> accepts as a number, apart from its range: an optional
  sign followed by at least one decimal digit.
\<close>

definition numeric :: "string \<Rightarrow> bool" where
  "numeric s =
     (case s of
        [] \<Rightarrow> False
      | c # cs \<Rightarrow>
          (let body = (if c = CHR ''+'' \<or> c = CHR ''-'' then cs else s)
           in body \<noteq> [] \<and> list_all is_digit body))"

text \<open>The transform names that the TCP factory recognizes, whatever their case.\<close>

definition recognized :: "folding \<Rightarrow> string \<Rightarrow> bool" where
  "recognized u t =
     (ToLower u t = ''gob-base'' \<or> ToLower u t = ''gob-delegate'' \<or> ToLower u t = ''aes'')"

text \<open>
  A validation error reports the offending value of the option bag: it names the option
  whose value is empty or missing, or it carries the value that was refused. The
  interface it carries is the non-empty \<^verbatim>\<open>Interface\<close> of the bag, which does not parse
  as an address; the number error it carries is the one \<^verbatim>\<open>strconv.Atoi\<close> gives for
  the non-empty \<^verbatim>\<open>Port\<close> of the bag (and holds that text); the transform name it
  carries is an unrecognized piece of the \<^verbatim>\<open>Transforms\<close> list that the bag holds.
\<close>

fun reports :: "'m tcp_deps \<Rightarrow> options \<Rightarrow> error \<Rightarrow> bool" where
  "reports d opts NameRequired = (get opts ''Name'' = [])"
| "reports d opts InterfaceRequired = (get opts ''Interface'' = [])"
| "reports d opts (InvalidInterface v) =
     (v = get opts ''Interface'' \<and> v \<noteq> [] \<and> ParseIP d v = None)"
| "reports d opts PortRequired = (get opts ''Port'' = [])"
| "reports d opts (PortConversion ne) =
     (get opts ''Port'' \<noteq> [] \<and> Atoi (get opts ''Port'') = Inl ne \<and> Num ne = get opts ''Port'')"
| "reports d opts (UnhandledTransform t) =
     (case opts ''Transforms'' of
        None \<Rightarrow> False
      | Some v \<Rightarrow> t \<in> set (Split v CHR '','') \<and> \<not> recognized (Map_ToLower d) t)"
| "reports d opts e = False"

section \<open>A concrete environment\<close>

text \<open>
  The statements below are exercised on one concrete environment, in which a message is
  a string. \<open>tag_codec\<close> stands for the encoder: it accepts a structured message only
  and encodes it by a tag in front of its text, and it decodes to a structured message.
  \<open>keyed_codec\<close> stands for the encrypter: it accepts bytes only, needs a key that is
  not empty, puts the key in front of the bytes, and gives the bytes back to the same
  key only.
\<close>

definition tag_codec :: "string Transformer" where
  "tag_codec =
     \<lparr>tConstruct = (\<lambda>x key.
        case x of DBase m \<Rightarrow> Inr (CHR ''m'' # m) | _ \<Rightarrow> Inl (External ''not a message'')),
      tDeconstruct = (\<lambda>d key.
        case d of
          [] \<Rightarrow> Inl (External ''empty input'')
        | c # r \<Rightarrow> if c = CHR ''m'' then Inr (DBase r) else Inl (External ''unknown tag'')),
      tString = ''tag''\<rparr>"

definition keyed_codec :: "string Transformer" where
  "keyed_codec =
     \<lparr>tConstruct = (\<lambda>x key.
        case x of
          DBytes b \<Rightarrow> if key = [] then Inl (External ''no key'') else Inr (key @ b)
        | _ \<Rightarrow> Inl (External ''not bytes'')),
      tDeconstruct = (\<lambda>d key.
        if key \<noteq> [] \<and> take (length key) d = key then Inr (DBytes (drop (length key) d))
        else Inl (External ''wrong key'')),
      tString = ''keyed''\<rparr>"

definition none_auth :: "string Authenticator" where
  "none_auth = \<lparr>aAuthenticate = (\<lambda>agent data. Inr []), aString = ''none''\<rparr>"

definition opaque_auth :: "string Authenticator" where
  "opaque_auth =
     \<lparr>aAuthenticate = (\<lambda>agent data.
        case data of DBytes b \<Rightarrow> Inr b | _ \<Rightarrow> Inl (External ''unexpected handshake data'')),
      aString = ''OPAQUE''\<rparr>"

text \<open>
  In the concrete environment only the loopback literal parses as an address, and a
  short polynomial checksum stands where the digest is. No statement depends on either
  choice: the theorems hold for every environment.
\<close>

definition loopback_only :: "string \<Rightarrow> bytes option" where
  "loopback_only s =
     (if s = ''127.0.0.1''
      then Some (replicate 10 (CHR 0x00) @ [CHR 0xFF, CHR 0xFF, CHR 0x7F, CHR 0x00, CHR 0x00, CHR 0x01])
      else None)"

text \<open>
  The Unicode path of the case folding, in the concrete environment: the dotted capital
  I (U+0130, in UTF-8 the bytes C4 B0) becomes i, the Kelvin sign (U+212A, the bytes
  E2 84 AA) becomes k, and the letters A to Z become a to z.
\<close>

fun unicode_lower0 :: folding where
  "unicode_lower0 [] = []"
| "unicode_lower0 (c # r) =
     (if c = CHR 0xC4 \<and> take 1 r = [CHR 0xB0] then CHR ''i'' # unicode_lower0 (drop 1 r)
      else if c = CHR 0xE2 \<and> take 2 r = [CHR 0x84, CHR 0xAA]
        then CHR ''k'' # unicode_lower0 (drop 2 r)
      else lower c # unicode_lower0 r)"

definition checksum :: "bytes \<Rightarrow> 256 word" where
  "checksum b = foldl (\<lambda>h c. h * 31 + of_nat (of_char c)) 7 b"

definition tcp_deps0 :: "string tcp_deps" where
  "tcp_deps0 =
     \<lparr>NewV4 = 0x6ba7b8109dad41d180b400c04fd430c8,
      Map_ToLower = unicode_lower0,
      ParseIP = loopback_only,
      Sum256 = checksum,
      gob_NewEncoder = tag_codec,
      aes_NewEncrypter = keyed_codec,
      opaque_NewAuthenticator = Inr opaque_auth,
      none_NewAuthenticator = none_auth\<rparr>"

text \<open>
  Modelled from the spec: the factories of the HTTP server and of the HTTP, SMB and UDP
  listeners are not among the sources. In the concrete environment each listener
  factory requires a non-empty \<^verbatim>\<open>Name\<close> and fails otherwise, as the specification says
  of every variant's factory; the server factory requires an \<^verbatim>\<open>Interface\<close>.
\<close>

definition httpServer_New0 :: "options \<Rightarrow> error + ServerInterface" where
  "httpServer_New0 opts =
     (if get opts ''Interface'' = [] then Inl InterfaceRequired
      else Inr \<lparr>srvID = 0x1b4e28ba2fa141d2883f0016d3cca427, srvStop = None\<rparr>)"

definition http_NewHTTPListener0 :: "ServerInterface \<Rightarrow> options \<Rightarrow> error + http_Listener" where
  "http_NewHTTPListener0 server opts =
     (if get opts ''Name'' = [] then Inl NameRequired
      else Inr \<lparr>hl_ID = 0x7d4448409dc041d27b5d0800200c9a66, hl_Name = get opts ''Name'',
                hl_Server = server\<rparr>)"

definition peer_New0 :: "UUID \<Rightarrow> options \<Rightarrow> error + peer_Listener" where
  "peer_New0 k opts =
     (if get opts ''Name'' = [] then Inl NameRequired
      else Inr \<lparr>pID = k, pName = get opts ''Name''\<rparr>)"

definition deps0 :: "string svc_deps" where
  "deps0 =
     \<lparr>tcp_env = tcp_deps0,
      SMB = 4,
      UDP = 3,
      httpServer_New = httpServer_New0,
      http_NewHTTPListener = http_NewHTTPListener0,
      smb_NewSMBListener = peer_New0 0x3d813cbb47fb42ba91df831e1593ac29,
      udp_NewUDPListener = peer_New0 0x5a2de30a4ac24c1ea1d0a1b2c3d4e5f6,
      servers_FromString = (\<lambda>s. if is_http_name (ToLower unicode_lower0 s) then 1 else 0),
      http_DefaultOptions = [(''Name'', ''My HTTP Listener''), (''Protocol'', ''HTTP'')],
      httpServer_GetDefaultOptions = (\<lambda>k. [(''Interface'', ''127.0.0.1''), (''Port'', ''80'')]),
      smb_DefaultOptions = [(''Name'', ''My SMB Listener''), (''Protocol'', ''SMB'')],
      udp_DefaultOptions = [(''Name'', ''My UDP Listener''), (''Protocol'', ''UDP'')]\<rparr>"

text \<open>Option bags: the defaults of the TCP listener, and variations of them.\<close>

definition default_options :: options where
  "default_options = map_of tcp_DefaultOptions"

definition no_transforms_options :: options where
  "no_transforms_options = default_options(''Transforms'' := None)"

definition gob_delegate_options :: options where
  "gob_delegate_options = default_options(''Transforms'' \<mapsto> ''gob-delegate'')"

definition no_authenticator_options :: options where
  "no_authenticator_options = default_options(''Authenticator'' := None)"

definition empty_psk_options :: options where
  "empty_psk_options = default_options(''PSK'' \<mapsto> [])"

definition http_no_name_options :: options where
  "http_no_name_options =
     [''Protocol'' \<mapsto> ''http'', ''Interface'' \<mapsto> ''127.0.0.1'', ''Port'' \<mapsto> ''80'']"

definition no_psk_options :: options where
  "no_psk_options = default_options(''PSK'' := None)"

text \<open>
  Listeners: a chain of two stages on the zero value, and the listeners that the factory
  creates from the bags above, which differ in four fields.
\<close>

definition two_stage_listener :: "string Listener" where
  "two_stage_listener =
     zero_Listener\<lparr>name := ''T1'', transformers := [Some keyed_codec, Some tag_codec]\<rparr>"

definition created ::
  "options \<Rightarrow> string Authenticator option \<Rightarrow> string Transformer option list \<Rightarrow> bytes \<Rightarrow>
   string Listener"
where
  "created opts a ts key =
     \<lparr>lid = NewV4 tcp_deps0, auth = a, transformers = ts,
      description = ''Default TCP Listener'', name = ''My TCP Listener'',
      options = opts, psk = key, iface = ''127.0.0.1'', port = 7777,
      agentService = Some ()\<rparr>"

definition default_listener :: "string Listener" where
  "default_listener =
     created default_options (Some opaque_auth) [Some keyed_codec, Some tag_codec]
       (slice32 (checksum ''merlin''))"

definition no_stage_listener :: "string Listener" where
  "no_stage_listener =
     created no_transforms_options (Some opaque_auth) [] (slice32 (checksum ''merlin''))"

definition gob_delegate_listener :: "string Listener" where
  "gob_delegate_listener =
     created gob_delegate_options (Some opaque_auth) [None] (slice32 (checksum ''merlin''))"

definition no_authenticator_listener :: "string Listener" where
  "no_authenticator_listener =
     created no_authenticator_options None [Some keyed_codec, Some tag_codec]
       (slice32 (checksum ''merlin''))"

definition empty_psk_listener :: "string Listener" where
  "empty_psk_listener =
     created empty_psk_options (Some opaque_auth) [Some keyed_codec, Some tag_codec]
       (slice32 (checksum []))"

definition no_psk_listener :: "string Listener" where
  "no_psk_listener =
     created no_psk_options (Some opaque_auth) [Some keyed_codec, Some tag_codec] []"

text \<open>Bags that the TCP factory refuses, one for each validation.\<close>

definition no_name_options :: options where
  "no_name_options = default_options(''Name'' := None)"

definition bad_interface_options :: options where
  "bad_interface_options = default_options(''Interface'' \<mapsto> ''localhost'')"

definition bad_port_options :: options where
  "bad_port_options = default_options(''Port'' \<mapsto> ''77a7'')"

definition bad_transform_options :: options where
  "bad_transform_options = default_options(''Transforms'' \<mapsto> ''aes,base64'')"

text \<open>
  The service after the default TCP listener was created in a new service, and the
  server that the HTTP server factory of the concrete environment creates.
\<close>

definition tcp_service :: "string ListenerService" where
  "tcp_service = NewListenerService\<lparr>tcpRepo := [(NewV4 tcp_deps0, default_listener)]\<rparr>"

definition http_server0 :: ServerInterface where
  "http_server0 = \<lparr>srvID = 0x1b4e28ba2fa141d2883f0016d3cca427, srvStop = None\<rparr>"

section \<open>The case folding is the addition of 32\<close>

lemma lower_adds_32:
  "lower c = (let n = (of_char c :: nat) in if 65 \<le> n \<and> n \<le> 90 then char_of (n + 32) else c)"
proof (cases c)
  case (Char b0 b1 b2 b3 b4 b5 b6 b7)
  show ?thesis
  proof (cases "65 \<le> (of_char c :: nat) \<and> (of_char c :: nat) \<le> 90")
    case False
    then show ?thesis by (auto simp: lower_def Let_def)
  next
    case True
    then have b: "\<not> b5 \<and> \<not> b7 \<and> b6"
      unfolding Char by (cases b0; cases b1; cases b2; cases b3; cases b4; cases b5; cases b6; cases b7) simp_all
    have "of_char (Char b0 b1 b2 b3 b4 True b6 b7) = (of_char c :: nat) + 32"
      unfolding Char using b by simp
    then have "char_of ((of_char c :: nat) + 32) = Char b0 b1 b2 b3 b4 True b6 b7"
      by (metis char_of_char)
    with True show ?thesis by (simp add: lower_def Let_def Char)
  qed
qed

section \<open>Evaluation on the concrete environment\<close>

lemma ToLower_simps:
  "ToLower u ''aes'' = ''aes''" "ToLower u ''gob-base'' = ''gob-base''"
  "ToLower u ''gob-delegate'' = ''gob-delegate''" "ToLower u ''OPAQUE'' = ''opaque''"
  "ToLower u ''TCP'' = ''tcp''" "ToLower u ''tcp'' = ''tcp''" "ToLower u ''http'' = ''http''"
  "ToLower u ''smb'' = ''smb''" "ToLower u ''udp'' = ''udp''"
  by (simp_all add: ToLower_def lower_def is_ascii_def)

lemma Atoi_7777: "Atoi ''7777'' = Inr 7777"
  by (simp add: Atoi_def is_digit_def)

lemmas factory_eval =
  NewTCPListener_def default_options_def tcp_DefaultOptions_def get_def tcp_deps0_def
  loopback_only_def Atoi_7777 ToLower_simps zero_Listener_def created_def

lemma NewTCPListener_default:
  "NewTCPListener tcp_deps0 default_options = Inr default_listener"
  by (simp add: factory_eval default_listener_def)

lemma NewTCPListener_no_transforms:
  "NewTCPListener tcp_deps0 no_transforms_options = Inr no_stage_listener"
  by (simp add: factory_eval no_transforms_options_def no_stage_listener_def)

lemma NewTCPListener_empty_psk:
  "NewTCPListener tcp_deps0 empty_psk_options = Inr empty_psk_listener"
  by (simp add: factory_eval empty_psk_options_def empty_psk_listener_def)

lemma NewTCPListener_no_psk:
  "NewTCPListener tcp_deps0 no_psk_options = Inr no_psk_listener"
  by (simp add: factory_eval no_psk_options_def no_psk_listener_def)

lemma NewTCPListener_no_authenticator:
  "NewTCPListener tcp_deps0 no_authenticator_options = Inr no_authenticator_listener"
  by (simp add: factory_eval no_authenticator_options_def no_authenticator_listener_def)

lemma NewTCPListener_gob_delegate:
  "NewTCPListener tcp_deps0 gob_delegate_options = Inr gob_delegate_listener"
  by (simp add: factory_eval gob_delegate_options_def gob_delegate_listener_def)

lemma length_slice32: "length (slice32 w) = 32"
  by (simp add: slice32_def)

section \<open>Properties of the transformer chain\<close>

text \<open>
  On a chain without a nil stage the loops of the code are the passes that the
  specification describes: \<^verbatim>\<open>Construct\<close> applies the last-configured transform to the
  message and each preceding one to the previous output, and returns the output of the
  first-configured one; \<^verbatim>\<open>Deconstruct\<close> goes forward from the wire bytes and returns
  the first output that is a structured message, or an error.
\<close>

lemma Construct_loop_onward:
  "i < length ts \<Longrightarrow>
   Construct_loop (map Some ts) msg key i data =
     returned (Construct_onward (rev (take i ts)) data key)"
proof (induction i arbitrary: data)
  case 0
  then show ?case by (simp add: returned_def)
next
  case (Suc j)
  then have j: "j < length ts" and ne: "Suc j \<noteq> length ts" by simp_all
  have tk: "rev (take (Suc j) ts) = ts ! j # rev (take j ts)"
    using j by (simp add: take_Suc_conv_app_nth)
  show ?case
    using Suc.IH [OF j] ne j
    by (simp add: tk returned_def split: sum.splits)
qed

lemma Construct_loop_full:
  assumes ne: "ts \<noteq> []"
  shows "Construct_loop (map Some ts) msg key (length ts) data =
           returned (case tConstruct (last ts) (DBase msg) key of
                       Inl e \<Rightarrow> Inl (ConstructError e)
                     | Inr d \<Rightarrow> Construct_onward (rev (butlast ts)) d key)"
proof -
  from ne obtain j where len: "length ts = Suc j" by (cases ts) auto
  have j: "j < length ts" using len by simp
  have lst: "ts ! j = last ts" using ne len by (simp add: last_conv_nth)
  have bl: "take j ts = butlast ts" using len by (simp add: butlast_conv_take)
  show ?thesis
    using Construct_loop_onward [OF j, of msg key] lst bl j
    by (simp add: len returned_def split: sum.splits)
qed

lemma Deconstruct_loop_forward:
  "Deconstruct_loop (map Some ts) data key =
     returned (Deconstruct_forward ts (DBytes data) key)"
proof (induction ts arbitrary: data)
  case Nil
  show ?case by (simp add: returned_def)
next
  case (Cons t ts)
  show ?case
  proof (cases "tDeconstruct t data key")
    case (Inl e)
    then show ?thesis by (simp add: returned_def)
  next
    case (Inr out)
    then show ?thesis using Cons.IH
      by (cases out; cases ts) (simp_all add: returned_def)
  qed
qed

lemma chain_order_without_nil:
  assumes "transformers l = map Some chain"
  shows "Construct l msg key =
           returned (Construct_reverse_order chain msg (effective_key l key)) \<and>
         Deconstruct l data key =
           returned (Deconstruct_forward_order chain data (effective_key l key))"
proof
  show "Construct l msg key = returned (Construct_reverse_order chain msg (effective_key l key))"
  proof (cases "chain = []")
    case True
    then show ?thesis
      using assms by (simp add: Construct_def Construct_reverse_order_def returned_def)
  next
    case False
    then have rv: "rev chain = last chain # rev (butlast chain)"
      by (cases chain rule: rev_cases) auto
    show ?thesis
      unfolding Construct_def Construct_reverse_order_def Let_def rv assms effective_key_def
      using Construct_loop_full [OF False] by simp
  qed
  show "Deconstruct l data key =
          returned (Deconstruct_forward_order chain data (effective_key l key))"
    using assms
    by (simp add: Deconstruct_def Deconstruct_forward_order_def Deconstruct_loop_forward
        effective_key_def)
qed

text \<open>
  So on a chain without a nil stage \<^verbatim>\<open>Deconstruct\<close> returns a message or fails with an
  error; it never panics.
\<close>

lemma without_nil: "None \<notin> set xs \<Longrightarrow> xs = map Some (map the xs)"
  by (induction xs) auto

lemma Deconstruct_message_or_error:
  assumes "None \<notin> set (transformers l)"
  shows "(\<exists>m. Deconstruct l data key = Inr m) \<or> (\<exists>e. Deconstruct l data key = Inl (Error e))"
proof -
  from chain_order_without_nil [OF without_nil [OF assms], where key = key and data = data]
  show ?thesis by (auto simp: returned_def split: sum.splits)
qed

text \<open>
  C2. The claim says that \<^verbatim>\<open>Deconstruct\<close> runs the chain forward, returns the first
  stage output that is a structured message and fails with an error if no stage yields
  one. On a chain that begins with a nil stage, as the factory builds it for the
  recognized name \<^verbatim>\<open>gob-delegate\<close>, no stage yields a message and \<^verbatim>\<open>Deconstruct\<close>
  does not fail with an error: it calls the nil stage and panics.
\<close>

theorem Deconstruct_nil_stage_panics:
  assumes "transformers l = None # rest"
  shows "Deconstruct l data key = Inl Panic"
  using assms by (simp add: Deconstruct_def)

text \<open>The listener that the factory creates from the default bag with \<^verbatim>\<open>gob-delegate\<close>.\<close>

theorem Deconstruct_nil_stage_panics_witness:
  "NewTCPListener tcp_deps0 gob_delegate_options = Inr gob_delegate_listener \<and>
   transformers gob_delegate_listener = None # [] \<and>
   Deconstruct gob_delegate_listener ''abc'' ''k1'' = Inl Panic"
proof -
  have t: "transformers gob_delegate_listener = None # []"
    by (simp add: gob_delegate_listener_def created_def)
  from Deconstruct_nil_stage_panics [OF t] t NewTCPListener_gob_delegate
  show ?thesis by blast
qed

text \<open>
  The stages of a chain that are mutual inverses: what the hypothesis gives for one
  stage.
\<close>

lemma bytes_stage_inverse:
  assumes "inverts_bytes key s"
  obtains t d where "s = Some t" "tConstruct t (DBytes b) key = Inr d"
    "tDeconstruct t d key = Inr (DBytes b)"
proof -
  from assms obtain t where t: "s = Some t" and inv: "inverts_at t (DBytes b) key"
    by (auto simp: inverts_bytes_def split: option.splits)
  from inv obtain d where "tConstruct t (DBytes b) key = Inr d"
    "tDeconstruct t d key = Inr (DBytes b)"
    by (auto simp: inverts_at_def split: sum.splits)
  with t show thesis using that by blast
qed

lemma message_stage_inverse:
  assumes "inverts_messages key s"
  obtains t d where "s = Some t" "tConstruct t (DBase m) key = Inr d"
    "tDeconstruct t d key = Inr (DBase m)"
proof -
  from assms obtain t where t: "s = Some t" and inv: "inverts_at t (DBase m) key"
    by (auto simp: inverts_messages_def split: option.splits)
  from inv obtain d where "tConstruct t (DBase m) key = Inr d"
    "tDeconstruct t d key = Inr (DBase m)"
    by (auto simp: inverts_at_def split: sum.splits)
  with t show thesis using that by blast
qed

lemma Construct_loop_inverted:
  assumes inv: "\<forall>n < i. inverts_bytes key (ts ! n)"
  shows "i < length ts \<Longrightarrow>
         \<exists>d'. Construct_loop ts msg key i data = Inr d' \<and>
              (\<forall>rest. Deconstruct_loop (take i ts @ rest) d' key = Deconstruct_loop rest data key)"
  using inv
proof (induction i arbitrary: data)
  case 0
  then show ?case by simp
next
  case (Suc j)
  then have j: "j < length ts" and ne: "Suc j \<noteq> length ts"
    and below: "\<forall>n < j. inverts_bytes key (ts ! n)" by simp_all
  from Suc.prems have "inverts_bytes key (ts ! j)" by simp
  then obtain t d1 where t: "ts ! j = Some t"
    and c: "tConstruct t (DBytes data) key = Inr d1"
    and d: "tDeconstruct t d1 key = Inr (DBytes data)"
    by (rule bytes_stage_inverse)
  from Suc.IH [OF j below, of d1] obtain d' where
    loop: "Construct_loop ts msg key j d1 = Inr d'" and
    rest_eq: "\<And>rest. Deconstruct_loop (take j ts @ rest) d' key = Deconstruct_loop rest d1 key"
    by blast
  have "Construct_loop ts msg key (Suc j) data = Inr d'"
    using t c ne loop by simp
  moreover have "Deconstruct_loop (take (Suc j) ts @ rest) d' key = Deconstruct_loop rest data key"
    for rest
    using rest_eq [of "ts ! j # rest"] j t d by (simp add: take_Suc_conv_app_nth)
  ultimately show ?case by blast
qed

text \<open>
  C1, as amended. For every TCP listener whose transformer chain is not empty and
  consists of stages whose own \<^verbatim>\<open>Construct\<close> and \<^verbatim>\<open>Deconstruct\<close> are mutual
  inverses (the last-configured stage on structured messages, the stages before it on
  bytes, with the key of the call), for every structured message \<open>m\<close> and every key,
  \<^verbatim>\<open>Deconstruct(Construct(m, key), key)\<close> returns \<open>m\<close> without error.
\<close>

theorem roundtrip_nonempty_chain:
  assumes ne: "transformers l \<noteq> []"
    and inv: "stages_invert l key"
  shows "roundtrip l m key"
proof -
  define k where "k = effective_key l key"
  define ts where "ts = transformers l"
  from ne obtain s pre where rv: "rev ts = s # pre"
    unfolding ts_def by (cases "rev (transformers l)") auto
  then have whole: "ts = rev pre @ [s]" by (metis rev.simps(2) rev_rev_ident)
  define j where "j = length pre"
  have len: "length ts = Suc j" by (simp add: whole j_def)
  have j: "j < length ts" using len by simp
  have tk: "take j ts = rev pre" by (simp add: whole j_def)
  from inv rv have last_inv: "inverts_messages k s"
    and pre_inv: "list_all (inverts_bytes k) pre"
    by (simp_all add: stages_invert_def ts_def k_def)
  have below: "\<forall>n < j. inverts_bytes k (ts ! n)"
  proof (intro allI impI)
    fix n assume n: "n < j"
    then have "ts ! n = rev pre ! n" by (simp add: whole j_def nth_append)
    moreover have "rev pre ! n \<in> set pre" using n by (metis j_def length_rev nth_mem set_rev)
    ultimately show "inverts_bytes k (ts ! n)" using pre_inv by (simp add: list_all_iff)
  qed
  from last_inv obtain t d1 where t: "s = Some t"
    and c: "tConstruct t (DBase m) k = Inr d1"
    and d: "tDeconstruct t d1 k = Inr (DBase m)"
    by (rule message_stage_inverse)
  have sj: "ts ! j = Some t"
    unfolding whole j_def t by (metis length_rev nth_append_length)
  from Construct_loop_inverted [OF below j, of m d1] obtain d' where
    loop: "Construct_loop ts m k j d1 = Inr d'" and
    rest_eq: "\<And>rest. Deconstruct_loop (take j ts @ rest) d' k = Deconstruct_loop rest d1 k"
    by blast
  have "Construct_loop ts m k (length ts) [] = Inr d'"
    using sj c loop by (simp add: len)
  then have con: "Construct l m key = Inr d'"
    by (simp add: Construct_def k_def ts_def effective_key_def)
  have "take j ts @ [Some t] = ts" using tk whole t by simp
  then have "Deconstruct_loop ts d' k = Inr m"
    using rest_eq [of "[Some t]"] d by simp
  then have "Deconstruct l d' key = Inr m"
    by (simp add: Deconstruct_def k_def ts_def effective_key_def)
  with con show ?thesis by (simp add: roundtrip_def)
qed

lemma tag_codec_inverts: "inverts_messages key (Some tag_codec)"
  by (simp add: inverts_messages_def inverts_at_def tag_codec_def)

lemma keyed_codec_inverts: "key \<noteq> [] \<Longrightarrow> inverts_bytes key (Some keyed_codec)"
  by (simp add: inverts_bytes_def inverts_at_def keyed_codec_def)

text \<open>
  The theorem on two chains of a decryption-like stage before an encoding stage: one
  on the zero value with the caller's key, and the listener that the factory creates
  from the default bag (\<^verbatim>\<open>aes,gob-base\<close>), called with an empty key, so that its
  pre-shared key is used.
\<close>

theorem roundtrip_nonempty_chain_witness:
  "transformers two_stage_listener \<noteq> [] \<and>
   stages_invert two_stage_listener ''k1'' \<and>
   roundtrip two_stage_listener ''hello'' ''k1'' \<and>
   NewTCPListener tcp_deps0 default_options = Inr default_listener \<and>
   transformers default_listener \<noteq> [] \<and>
   stages_invert default_listener [] \<and>
   roundtrip default_listener ''hello'' []"
proof -
  have ne: "transformers two_stage_listener \<noteq> []"
    by (simp add: two_stage_listener_def)
  have inv: "stages_invert two_stage_listener ''k1''"
    by (simp add: stages_invert_def two_stage_listener_def effective_key_def
        tag_codec_inverts keyed_codec_inverts)
  have ne': "transformers default_listener \<noteq> []"
    by (simp add: default_listener_def created_def)
  have "length (effective_key default_listener []) = 32"
    by (simp add: effective_key_def default_listener_def created_def length_slice32)
  then have k: "effective_key default_listener [] \<noteq> []" by auto
  have tr: "transformers default_listener = [Some keyed_codec, Some tag_codec]"
    by (simp add: default_listener_def created_def)
  have inv': "stages_invert default_listener []"
    unfolding stages_invert_def tr
    by (simp add: tag_codec_inverts keyed_codec_inverts [OF k])
  from roundtrip_nonempty_chain [OF ne inv] roundtrip_nonempty_chain [OF ne' inv']
    ne inv ne' inv' NewTCPListener_default
  show ?thesis by blast
qed

text \<open>
  C1 as stated fails on the listener that the factory creates from a bag without
  \<^verbatim>\<open>Transforms\<close>: its chain is empty, so it has no stage whose operations are not
  mutual inverses, \<^verbatim>\<open>Construct\<close> returns an empty payload and \<^verbatim>\<open>Deconstruct\<close> fails
  on it.
\<close>

theorem roundtrip_empty_chain_counterexample:
  "NewTCPListener tcp_deps0 no_transforms_options = Inr no_stage_listener \<and>
   stages_invert no_stage_listener ''k1'' \<and>
   \<not> roundtrip no_stage_listener ''hello'' ''k1''"
  by (simp add: NewTCPListener_no_transforms)
     (simp add: no_stage_listener_def created_def stages_invert_def roundtrip_def
        Construct_def Deconstruct_def)

section \<open>Properties of the TCP factory and of the listener's methods\<close>

lemma NewTCPListener_fields:
  assumes "NewTCPListener d opts = Inr l"
  shows "psk l = (case opts ''PSK'' of None \<Rightarrow> [] | Some v \<Rightarrow> slice32 (Sum256 d v))"
    and "auth l =
           (case opts ''Authenticator'' of
              None \<Rightarrow> None
            | Some v \<Rightarrow>
                if ToLower (Map_ToLower d) v = ''opaque''
                then (case opaque_NewAuthenticator d of Inl e \<Rightarrow> None | Inr a \<Rightarrow> Some a)
                else Some (none_NewAuthenticator d))"
  using assms
  by (auto simp: NewTCPListener_def Let_def zero_Listener_def
           split: if_splits sum.splits option.splits)


text \<open>
  C7, as amended. At creation \<^verbatim>\<open>NewTCPListener\<close> derives the pre-shared key from the
  \<^verbatim>\<open>PSK\<close> option whenever the key \<^verbatim>\<open>PSK\<close> is present in the bag: the key is the 32-byte
  digest of the option's value, also when that value is the empty string. Only when the
  key \<^verbatim>\<open>PSK\<close> is absent from the bag is the pre-shared key empty, so that
  \<^verbatim>\<open>PSK()\<close> returns the empty string.
\<close>

theorem PSK_derivation:
  assumes "NewTCPListener d opts = Inr l"
  shows "PSK l = (case opts ''PSK'' of None \<Rightarrow> [] | Some v \<Rightarrow> slice32 (Sum256 d v)) \<and>
         (PSK l = [] \<longleftrightarrow> opts ''PSK'' = None)"
proof -
  have p: "PSK l = (case opts ''PSK'' of None \<Rightarrow> [] | Some v \<Rightarrow> slice32 (Sum256 d v))"
    using NewTCPListener_fields(1) [OF assms] by (simp add: PSK_def)
  have "slice32 w \<noteq> []" for w
    using length_slice32 [of w] by auto
  with p show ?thesis by (auto split: option.splits)
qed


text \<open>
  The theorem at the default bag, whose \<^verbatim>\<open>PSK\<close> is \<^verbatim>\<open>merlin\<close>, and at the same bag
  without the key \<^verbatim>\<open>PSK\<close>.
\<close>

theorem PSK_derivation_witness:
  "NewTCPListener tcp_deps0 default_options = Inr default_listener \<and>
   PSK default_listener = slice32 (Sum256 tcp_deps0 ''merlin'') \<and>
   PSK default_listener \<noteq> [] \<and>
   NewTCPListener tcp_deps0 no_psk_options = Inr no_psk_listener \<and>
   PSK no_psk_listener = []"
proof -
  have some: "default_options ''PSK'' = Some ''merlin''"
    by (simp add: default_options_def tcp_DefaultOptions_def)
  have none: "no_psk_options ''PSK'' = None"
    by (simp add: no_psk_options_def)
  from PSK_derivation [OF NewTCPListener_default]
  have 1: "PSK default_listener = slice32 (Sum256 tcp_deps0 ''merlin'')"
    and 2: "PSK default_listener \<noteq> []" unfolding some by auto
  from PSK_derivation [OF NewTCPListener_no_psk]
  have 3: "PSK no_psk_listener = []" unfolding none by auto
  from 1 2 3 NewTCPListener_default NewTCPListener_no_psk show ?thesis by blast
qed


text \<open>
  C7 as stated fails where the bag holds the key \<^verbatim>\<open>PSK\<close> with the empty string as
  its value: the pre-shared key is then the digest of the empty input, 32 bytes long,
  and \<^verbatim>\<open>PSK()\<close> does not return the empty string.
\<close>

theorem empty_PSK_counterexample:
  "NewTCPListener tcp_deps0 empty_psk_options = Inr empty_psk_listener \<and>
   empty_psk_options ''PSK'' = Some [] \<and>
   PSK empty_psk_listener \<noteq> []"
proof -
  have "length (PSK empty_psk_listener) = 32"
    by (simp add: PSK_def empty_psk_listener_def created_def length_slice32)
  then have "PSK empty_psk_listener \<noteq> []" by auto
  moreover have "empty_psk_options ''PSK'' = Some []"
    by (simp add: empty_psk_options_def)
  ultimately show ?thesis
    using NewTCPListener_empty_psk by blast
qed


text \<open>
  C4. The claim says that a bag without the key \<^verbatim>\<open>Authenticator\<close> selects the
  pass-through authenticator. The code does not: when the key is absent the factory
  succeeds and leaves the authenticator nil, and \<^verbatim>\<open>Authenticate\<close> on the created
  listener calls a method of the nil interface and panics.
\<close>

theorem absent_Authenticator_leaves_nil:
  assumes "opts ''Authenticator'' = None" and "NewTCPListener d opts = Inr l"
  shows "auth l = None \<and> Authenticate l agent data = Inl Panic"
  using NewTCPListener_fields(2) [OF assms(2)] assms(1)
  by (simp add: Authenticate_def)


text \<open>The default bag without the key \<^verbatim>\<open>Authenticator\<close>.\<close>

theorem absent_Authenticator_leaves_nil_witness:
  "no_authenticator_options ''Authenticator'' = None \<and>
   NewTCPListener tcp_deps0 no_authenticator_options = Inr no_authenticator_listener \<and>
   auth no_authenticator_listener = None \<and>
   Authenticate no_authenticator_listener 7 (DBytes ''hello'') = Inl Panic"
proof -
  have a: "no_authenticator_options ''Authenticator'' = None"
    by (simp add: no_authenticator_options_def)
  from absent_Authenticator_leaves_nil [OF a NewTCPListener_no_authenticator] a
  show ?thesis by (simp add: NewTCPListener_no_authenticator)
qed


text \<open>
  C10. For the bag whose \<^verbatim>\<open>Transforms\<close> is the recognized name \<^verbatim>\<open>gob-delegate\<close>,
  \<^verbatim>\<open>NewTCPListener\<close> succeeds and the chain of the listener is one nil stage; every
  later \<^verbatim>\<open>Construct\<close> and \<^verbatim>\<open>Deconstruct\<close> on that listener calls the nil stage and
  panics instead of returning an error.
\<close>

theorem gob_delegate_nil_stage:
  "NewTCPListener tcp_deps0 gob_delegate_options = Inr gob_delegate_listener \<and>
   gob_delegate_options ''Transforms'' = Some ''gob-delegate'' \<and>
   transformers gob_delegate_listener = [None] \<and>
   Construct gob_delegate_listener msg key = Inl Panic \<and>
   Deconstruct gob_delegate_listener data key = Inl Panic"
  by (simp add: NewTCPListener_gob_delegate)
     (simp add: gob_delegate_options_def gob_delegate_listener_def created_def
        Construct_def Deconstruct_def)


text \<open>
  C9. \<^verbatim>\<open>Listener.SetOption\<close> changes only the name or the description, matched without
  regard to case, by \<^verbatim>\<open>strings.ToLower\<close> with whatever its Unicode path folds; for
  every other option name, among them interface, port, transforms and protocol, it
  returns the unhandled-option error and changes nothing; and after any call the
  protocol, the transformer chain, the interface, the port and the pre-shared key of the
  listener are what they were.
\<close>

theorem SetOption_frame:
  "(ToLower u option = ''name'' \<longrightarrow> SetOption u l option v = (None, l\<lparr>name := v\<rparr>)) \<and>
   (ToLower u option = ''description'' \<longrightarrow>
      SetOption u l option v = (None, l\<lparr>description := v\<rparr>)) \<and>
   (ToLower u option \<noteq> ''name'' \<and> ToLower u option \<noteq> ''description'' \<longrightarrow>
      SetOption u l option v = (Some (UnhandledOption option), l)) \<and>
   (ToLower u option \<in> {''interface'', ''port'', ''transforms'', ''protocol''} \<longrightarrow>
      SetOption u l option v = (Some (UnhandledOption option), l)) \<and>
   Protocol (snd (SetOption u l option v)) = Protocol l \<and>
   transformers (snd (SetOption u l option v)) = transformers l \<and>
   iface (snd (SetOption u l option v)) = iface l \<and>
   port (snd (SetOption u l option v)) = port l \<and>
   psk (snd (SetOption u l option v)) = psk l"
  by (auto simp: SetOption_def Let_def Protocol_def)

lemma ToLower_options:
  "ToLower u ''Name'' = ''name''" "ToLower u ''DESCRIPTION'' = ''description''"
  "ToLower u ''Port'' = ''port''" "ToLower u ''PSK'' = ''psk''"
  by (simp_all add: ToLower_def lower_def is_ascii_def)

lemma ToLower_dotted_I:
  "ToLower unicode_lower0 (''DESCR'' @ [CHR 0xC4, CHR 0xB0] @ ''PTION'') = ''description''"
  by (simp add: ToLower_def lower_def is_ascii_def)

text \<open>
  The kinds of call, on the listener created from the default bag: the two names in
  ASCII, two other names, and the description spelt with the dotted capital I, which the
  folding of the concrete environment turns into i.
\<close>

theorem SetOption_frame_witness:
  "SetOption unicode_lower0 default_listener ''Name'' ''T2'' =
     (None, default_listener\<lparr>name := ''T2''\<rparr>) \<and>
   SetOption unicode_lower0 default_listener ''DESCRIPTION'' ''second'' =
     (None, default_listener\<lparr>description := ''second''\<rparr>) \<and>
   SetOption unicode_lower0 default_listener (''DESCR'' @ [CHR 0xC4, CHR 0xB0] @ ''PTION'') ''third'' =
     (None, default_listener\<lparr>description := ''third''\<rparr>) \<and>
   SetOption unicode_lower0 default_listener ''Port'' ''8888'' =
     (Some (UnhandledOption ''Port''), default_listener) \<and>
   SetOption unicode_lower0 default_listener ''PSK'' ''other'' =
     (Some (UnhandledOption ''PSK''), default_listener) \<and>
   port (snd (SetOption unicode_lower0 default_listener ''Port'' ''8888'')) = 7777"
proof -
  have p: "port default_listener = 7777"
    by (simp add: default_listener_def created_def)
  have 1: "SetOption unicode_lower0 default_listener ''Name'' ''T2'' =
             (None, default_listener\<lparr>name := ''T2''\<rparr>)"
    using SetOption_frame [of unicode_lower0 "''Name''" default_listener "''T2''"]
    by (simp add: ToLower_options)
  have 2: "SetOption unicode_lower0 default_listener ''DESCRIPTION'' ''second'' =
             (None, default_listener\<lparr>description := ''second''\<rparr>)"
    using SetOption_frame [of unicode_lower0 "''DESCRIPTION''" default_listener "''second''"]
    by (simp add: ToLower_options)
  have 3: "SetOption unicode_lower0 default_listener
             (''DESCR'' @ [CHR 0xC4, CHR 0xB0] @ ''PTION'') ''third'' =
             (None, default_listener\<lparr>description := ''third''\<rparr>)"
    using SetOption_frame [of unicode_lower0 "''DESCR'' @ [CHR 0xC4, CHR 0xB0] @ ''PTION''"
        default_listener "''third''"]
    unfolding ToLower_dotted_I by simp
  have 4: "SetOption unicode_lower0 default_listener ''Port'' ''8888'' =
             (Some (UnhandledOption ''Port''), default_listener)"
    using SetOption_frame [of unicode_lower0 "''Port''" default_listener "''8888''"]
    by (simp add: ToLower_options)
  have 5: "SetOption unicode_lower0 default_listener ''PSK'' ''other'' =
             (Some (UnhandledOption ''PSK''), default_listener)"
    using SetOption_frame [of unicode_lower0 "''PSK''" default_listener "''other''"]
    by (simp add: ToLower_options)
  have 6: "port (snd (SetOption unicode_lower0 default_listener ''Port'' ''8888'')) = 7777"
    using SetOption_frame [of unicode_lower0 "''Port''" default_listener "''8888''"] p
    by simp
  from 1 2 3 4 5 6 show ?thesis by blast
qed

section \<open>Properties of the service\<close>


lemma map_of_put: "map_of (put r k v) k = Some v"
  by (induction r) auto

lemma is_http_name_simps:
  "is_http_name ''http''" "\<not> is_http_name ''tcp''" "\<not> is_http_name ''smb''"
  "\<not> is_http_name ''udp''"
  by (simp_all add: is_http_name_def)

text \<open>
  C3. The claim says that \<^verbatim>\<open>Start\<close>, \<^verbatim>\<open>Stop\<close> and \<^verbatim>\<open>Restart\<close> of a stored listener
  without an embedded server do nothing and return a nil error. For a stored TCP
  listener \<^verbatim>\<open>Start\<close> and \<^verbatim>\<open>Stop\<close> do so, but \<^verbatim>\<open>Restart\<close> dereferences the nil pointer
  that \<^verbatim>\<open>Server()\<close> returns and panics.
\<close>

theorem Restart_tcp_listener_panics:
  assumes "ListenerService_Listener ls k = Inr (TCPListener l)"
  shows "Start d ls k = ([], Inr ()) \<and> Stop d ls k = ([], Inr ()) \<and>
         Restart d ls k = ([], Inl Panic)"
  using assms
  by (simp add: Start_def Stop_def Restart_def Protocol_of_def Protocol_def Server_of_def
      Server_def HTTP_def TCP_def Let_def)

lemma NewListener_default:
  "NewListener deps0 NewListenerService default_options =
     (Inr (TCPListener default_listener), tcp_service)"
proof -
  have p: "default_options ''Protocol'' = Some ''TCP''"
    by (simp add: default_options_def tcp_DefaultOptions_def)
  have e: "tcp_env deps0 = tcp_deps0" by (simp add: deps0_def)
  show ?thesis
    unfolding NewListener_def p e
    by (simp add: ToLower_simps is_http_name_simps NewTCPListener_default repo_Add_def
        NewListenerService_def tcp_service_def ID_def default_listener_def created_def)
qed

lemma Listener_tcp_service:
  "ListenerService_Listener tcp_service (NewV4 tcp_deps0) = Inr (TCPListener default_listener)"
  by (simp add: ListenerService_Listener_def tcp_service_def NewListenerService_def
      repo_ListenerByID_def)

text \<open>
  The service in which the default TCP listener was created, asked with the identifier
  of that listener.
\<close>

theorem Restart_tcp_listener_panics_witness:
  "NewListener deps0 NewListenerService default_options =
     (Inr (TCPListener default_listener), tcp_service) \<and>
   ListenerService_Listener tcp_service (NewV4 tcp_deps0) = Inr (TCPListener default_listener) \<and>
   Start deps0 tcp_service (NewV4 tcp_deps0) = ([], Inr ()) \<and>
   Stop deps0 tcp_service (NewV4 tcp_deps0) = ([], Inr ()) \<and>
   Restart deps0 tcp_service (NewV4 tcp_deps0) = ([], Inl Panic)"
  using Restart_tcp_listener_panics [OF Listener_tcp_service, of deps0]
    NewListener_default Listener_tcp_service
  by blast

text \<open>
  Whenever \<^verbatim>\<open>NewListener\<close> fails, the four listener repositories are what they
  were; the service as a whole is unchanged, or it differs by the server that the HTTP
  path had already added. A missing and an unrecognized \<^verbatim>\<open>Protocol\<close> both fail and
  change nothing.
\<close>

lemma NewListener_failure_state:
  assumes "NewListener d ls opts = (Inl f, ls')"
  shows "httpRepo ls' = httpRepo ls \<and> smbRepo ls' = smbRepo ls \<and>
         tcpRepo ls' = tcpRepo ls \<and> udpRepo ls' = udpRepo ls \<and>
         Listeners ls' = Listeners ls \<and>
         (ls' = ls \<or>
          (\<exists>server. httpServer_New d opts = Inr server \<and>
             ls' = ls\<lparr>httpServerRepo := put (httpServerRepo ls) (srvID server) server\<rparr>))"
  using assms
  by (auto simp: NewListener_def Let_def repo_Add_def Listeners_def
           split: option.splits sum.splits if_splits)

lemma NewListener_failure_cases:
  "opts ''Protocol'' = None \<Longrightarrow> NewListener d ls opts = (Inl (Error ProtocolKeyMissing), ls)"
  "opts ''Protocol'' = Some p \<Longrightarrow> k = ToLower (Map_ToLower (tcp_env d)) p \<Longrightarrow>
     \<not> is_http_name k \<Longrightarrow> k \<noteq> ''smb'' \<Longrightarrow> k \<noteq> ''tcp'' \<Longrightarrow> k \<noteq> ''udp'' \<Longrightarrow>
     NewListener d ls opts = (Inl (Error (UnhandledServerType (servers_FromString d p))), ls)"
  by (simp_all add: NewListener_def)

text \<open>
  C5. The claim says that a failing \<^verbatim>\<open>NewListener\<close> leaves no listener and no server
  registered in any repository. On the HTTP path the server is added to the server
  repository before the listener factory runs: when that factory fails,
  \<^verbatim>\<open>NewListener\<close> returns the error, \<^verbatim>\<open>Listeners()\<close> is unchanged, and the server
  stays registered.
\<close>

theorem NewListener_http_failure_keeps_server:
  assumes "opts ''Protocol'' = Some p"
    and "is_http_name (ToLower (Map_ToLower (tcp_env d)) p)"
    and "httpServer_New d opts = Inr server"
    and "http_NewHTTPListener d server opts = Inl e"
  shows "NewListener d ls opts =
           (Inl (Error (NewListenerError e)),
            ls\<lparr>httpServerRepo := put (httpServerRepo ls) (srvID server) server\<rparr>) \<and>
         repo_ListenerByID (httpServerRepo (snd (NewListener d ls opts))) (srvID server) =
           Inr server \<and>
         Listeners (snd (NewListener d ls opts)) = Listeners ls"
  using assms
  by (simp add: NewListener_def repo_Add_def repo_ListenerByID_def map_of_put Listeners_def)

text \<open>
  A new service and an HTTP bag without a name, in the concrete environment: the server
  is created, the listener is refused, and the server repository holds the server.
\<close>

theorem NewListener_http_failure_keeps_server_witness:
  "NewListener deps0 NewListenerService http_no_name_options =
     (Inl (Error (NewListenerError NameRequired)),
      NewListenerService\<lparr>httpServerRepo := [(srvID http_server0, http_server0)]\<rparr>) \<and>
   repo_ListenerByID
     (httpServerRepo (snd (NewListener deps0 NewListenerService http_no_name_options)))
     (srvID http_server0) = Inr http_server0 \<and>
   Listeners (snd (NewListener deps0 NewListenerService http_no_name_options)) = []"
proof -
  have p: "http_no_name_options ''Protocol'' = Some ''http''"
    by (simp add: http_no_name_options_def)
  have h: "is_http_name (ToLower (Map_ToLower (tcp_env deps0)) ''http'')"
    by (simp add: ToLower_simps is_http_name_simps)
  have s: "httpServer_New deps0 http_no_name_options = Inr http_server0"
    by (simp add: deps0_def httpServer_New0_def http_no_name_options_def get_def http_server0_def)
  have l: "http_NewHTTPListener deps0 http_server0 http_no_name_options = Inl NameRequired"
    by (simp add: deps0_def http_NewHTTPListener0_def http_no_name_options_def get_def)
  have r: "put (httpServerRepo (NewListenerService :: string ListenerService))
             (srvID http_server0) http_server0 = [(srvID http_server0, http_server0)]"
    by (simp add: NewListenerService_def)
  have n: "Listeners (NewListenerService :: string ListenerService) = []"
    by (simp add: Listeners_def NewListenerService_def repo_Listeners_def)
  from NewListener_http_failure_keeps_server [OF p h s l, of NewListenerService]
  show ?thesis unfolding r n by blast
qed

text \<open>
  C8. The claim says that \<^verbatim>\<open>DefaultOptions\<close> succeeds for each of HTTP, SMB, TCP and
  UDP. \<^verbatim>\<open>listeners.FromString\<close> knows the HTTP names and \<^verbatim>\<open>tcp\<close> only and maps
  \<^verbatim>\<open>smb\<close> and \<^verbatim>\<open>udp\<close> to \<^verbatim>\<open>UNKNOWN\<close>; whenever the constants \<^verbatim>\<open>listeners.SMB\<close>
  and \<^verbatim>\<open>listeners.UDP\<close> differ from \<^verbatim>\<open>UNKNOWN\<close>, the cases for them are never reached
  and \<^verbatim>\<open>DefaultOptions\<close> returns the unhandled-server-type error for both names.
\<close>

theorem DefaultOptions_smb_udp_unhandled:
  assumes "SMB d \<noteq> UNKNOWN" and "UDP d \<noteq> UNKNOWN"
  shows "DefaultOptions d ''smb'' = Inl (DefaultOptionsUnhandled ''smb'') \<and>
         DefaultOptions d ''udp'' = Inl (DefaultOptionsUnhandled ''udp'')"
proof -
  have "FromString u ''smb'' = UNKNOWN" "FromString u ''udp'' = UNKNOWN" for u
    by (simp_all add: FromString_def ToLower_simps is_http_name_simps)
  with assms show ?thesis
    by (simp add: DefaultOptions_def UNKNOWN_def HTTP_def TCP_def)
qed

text \<open>The concrete environment, where \<^verbatim>\<open>SMB\<close> is 4 and \<^verbatim>\<open>UDP\<close> is 3.\<close>

theorem DefaultOptions_smb_udp_unhandled_witness:
  "SMB deps0 \<noteq> UNKNOWN \<and> UDP deps0 \<noteq> UNKNOWN \<and>
   DefaultOptions deps0 ''smb'' = Inl (DefaultOptionsUnhandled ''smb'') \<and>
   DefaultOptions deps0 ''udp'' = Inl (DefaultOptionsUnhandled ''udp'')"
proof -
  have s: "SMB deps0 \<noteq> UNKNOWN" and u: "UDP deps0 \<noteq> UNKNOWN"
    by (simp_all add: deps0_def UNKNOWN_def)
  from DefaultOptions_smb_udp_unhandled [OF s u] s u show ?thesis by blast
qed

text \<open>
  Where \<^verbatim>\<open>DefaultOptions\<close> does succeed, the map it returns is the merged bag: filling
  a new map in the order of the sorted keys gives the same map as any other order. For
  \<^verbatim>\<open>tcp\<close> the result is the default bag of the TCP listener.
\<close>

lemma fill_in_order:
  "fold (\<lambda>key options. options(key \<mapsto> f key)) keys m =
     (\<lambda>x. if x \<in> set keys then Some (f x) else m x)"
  by (induction keys arbitrary: m) (auto simp: fun_eq_iff)

lemma fill_sorted_keys:
  "fold (\<lambda>key options. options(key \<mapsto> get (map_of bag) key)) (sort (map fst bag)) Map.empty =
     map_of bag"
proof
  fix x
  show "fold (\<lambda>key options. options(key \<mapsto> get (map_of bag) key)) (sort (map fst bag))
          Map.empty x = map_of bag x"
  proof (cases "map_of bag x")
    case None
    then have "x \<notin> fst ` set bag" by (simp add: map_of_eq_None_iff)
    then show ?thesis unfolding None by (simp add: fill_in_order)
  next
    case (Some v)
    then have "x \<in> fst ` set bag" by (metis map_of_eq_None_iff option.distinct(1))
    with Some show ?thesis by (simp add: fill_in_order get_def)
  qed
qed

lemma DefaultOptions_tcp:
  "SMB d \<noteq> TCP \<Longrightarrow> DefaultOptions d ''tcp'' = Inr (map_of tcp_DefaultOptions)"
  by (simp add: DefaultOptions_def FromString_def ToLower_simps is_http_name_simps
      HTTP_def TCP_def fill_sorted_keys del: map_of.simps)

section \<open>Validation by the TCP factory\<close>


lemma Atoi_error_names_input: "Atoi s = Inl ne \<Longrightarrow> Num ne = s"
  by (auto simp: Atoi_def Let_def split: list.splits sum.splits if_splits)

lemma ParseUint_loop_digits: "ParseUint_loop body n = Inr m \<Longrightarrow> list_all is_digit body"
  by (induction body arbitrary: n) (auto simp: Let_def split: if_splits)

lemma Atoi_value_numeric: "Atoi s = Inr n \<Longrightarrow> numeric s"
  by (auto simp: Atoi_def numeric_def Let_def ParseUint_loop_digits
           split: list.splits sum.splits if_splits)

lemma add_transforms_error:
  "add_transforms d ts acc = Inl e \<Longrightarrow>
   \<exists>t \<in> set ts. \<not> recognized (Map_ToLower d) t \<and> e = UnhandledTransform t"
  by (induction ts arbitrary: acc) (auto simp: Let_def recognized_def split: if_splits)

lemma add_transforms_recognized:
  "add_transforms d ts acc = Inr r \<Longrightarrow> \<forall>t \<in> set ts. recognized (Map_ToLower d) t"
  by (induction ts arbitrary: acc) (auto simp: Let_def recognized_def split: if_splits)

lemma NewTCPListener_rejects:
  assumes bad: "get opts ''Name'' = [] \<or> get opts ''Interface'' = [] \<or>
       ParseIP d (get opts ''Interface'') = None \<or> \<not> numeric (get opts ''Port'') \<or>
       (\<exists>v. opts ''Transforms'' = Some v \<and>
          (\<exists>t \<in> set (Split v CHR '',''). \<not> recognized (Map_ToLower d) t))"
  shows "\<exists>e. NewTCPListener d opts = Inl e \<and> reports d opts e \<and>
             (get opts ''Name'' = [] \<longrightarrow> e = NameRequired)"
proof -
  consider (name) "get opts ''Name'' = []"
    | (iface) "get opts ''Name'' \<noteq> []" "get opts ''Interface'' = []"
    | (ip) "get opts ''Name'' \<noteq> []" "get opts ''Interface'' \<noteq> []"
        "ParseIP d (get opts ''Interface'') = None"
    | (port) "get opts ''Name'' \<noteq> []" "get opts ''Interface'' \<noteq> []"
        "ParseIP d (get opts ''Interface'') \<noteq> None" "get opts ''Port'' = []"
    | (atoi) ne where "get opts ''Name'' \<noteq> []" "get opts ''Interface'' \<noteq> []"
        "ParseIP d (get opts ''Interface'') \<noteq> None" "get opts ''Port'' \<noteq> []"
        "Atoi (get opts ''Port'') = Inl ne"
    | (transforms) p where "get opts ''Name'' \<noteq> []" "get opts ''Interface'' \<noteq> []"
        "ParseIP d (get opts ''Interface'') \<noteq> None" "get opts ''Port'' \<noteq> []"
        "Atoi (get opts ''Port'') = Inr p"
    by (cases "Atoi (get opts ''Port'')") blast+
  then show ?thesis
  proof cases
    case name
    then show ?thesis by (simp add: NewTCPListener_def Let_def zero_Listener_def)
  next
    case iface
    then show ?thesis
      by (simp add: NewTCPListener_def Let_def zero_Listener_def split: option.splits)
  next
    case ip
    then show ?thesis
      by (simp add: NewTCPListener_def Let_def zero_Listener_def split: option.splits)
  next
    case port
    then show ?thesis
      by (auto simp: NewTCPListener_def Let_def zero_Listener_def split: option.splits)
  next
    case atoi
    then show ?thesis
      using Atoi_error_names_input [OF atoi(5)]
      by (auto simp: NewTCPListener_def Let_def zero_Listener_def split: option.splits)
  next
    case transforms
    from Atoi_value_numeric [OF transforms(5)] transforms bad
    obtain v t where v: "opts ''Transforms'' = Some v"
      and t: "t \<in> set (Split v CHR '','')" "\<not> recognized (Map_ToLower d) t"
      by auto
    have "\<exists>e. add_transforms d (Split v CHR '','') [] = Inl e"
      using add_transforms_recognized [of d "Split v CHR '',''" "[]"] t
      by (cases "add_transforms d (Split v CHR '','') []") auto
    then obtain e where e: "add_transforms d (Split v CHR '','') [] = Inl e" ..
    from add_transforms_error [OF e] obtain t' where
      t': "t' \<in> set (Split v CHR '','')" "\<not> recognized (Map_ToLower d) t'"
        "e = UnhandledTransform t'"
      by blast
    have "NewTCPListener d opts = Inl e"
      using transforms v e
      by (auto simp: NewTCPListener_def Let_def zero_Listener_def split: option.splits)
    moreover have "reports d opts e" using t' v by simp
    ultimately show ?thesis using transforms(1) by blast
  qed
qed

text \<open>
  C6. \<^verbatim>\<open>NewTCPListener\<close> returns an error that reports the offending value whenever the
  bag has an empty or missing \<^verbatim>\<open>Name\<close>, an \<^verbatim>\<open>Interface\<close> that is empty or does not
  parse as an IP address, a \<^verbatim>\<open>Port\<close> that is not numeric, or a \<^verbatim>\<open>Transforms\<close> list
  with an unrecognized name: the error names an option of the bag that is empty, or
  carries the interface, the port text (as refused by \<^verbatim>\<open>strconv.Atoi\<close>) or the
  transform name of the bag that was refused, and it is the name error whenever the name
  is empty. A caller that goes through \<^verbatim>\<open>NewListener\<close> of the service then gets that
  error and the service exactly as it was.
\<close>

theorem NewTCPListener_validation:
  assumes bad: "get opts ''Name'' = [] \<or> get opts ''Interface'' = [] \<or>
       ParseIP (tcp_env d) (get opts ''Interface'') = None \<or> \<not> numeric (get opts ''Port'') \<or>
       (\<exists>v. opts ''Transforms'' = Some v \<and>
          (\<exists>t \<in> set (Split v CHR '',''). \<not> recognized (Map_ToLower (tcp_env d)) t))"
  shows "\<exists>e. NewTCPListener (tcp_env d) opts = Inl e \<and> reports (tcp_env d) opts e \<and>
             (get opts ''Name'' = [] \<longrightarrow> e = NameRequired) \<and>
             (\<forall>p ls. opts ''Protocol'' = Some p \<and>
                      ToLower (Map_ToLower (tcp_env d)) p = ''tcp'' \<longrightarrow>
                 NewListener d ls opts = (Inl (Error (NewListenerError e)), ls))"
proof -
  from NewTCPListener_rejects [OF bad] obtain e where
    e: "NewTCPListener (tcp_env d) opts = Inl e" "reports (tcp_env d) opts e"
      "get opts ''Name'' = [] \<longrightarrow> e = NameRequired" by blast
  have "NewListener d ls opts = (Inl (Error (NewListenerError e)), ls)"
    if "opts ''Protocol'' = Some p" "ToLower (Map_ToLower (tcp_env d)) p = ''tcp''" for p ls
    using that e(1) by (simp add: NewListener_def is_http_name_simps)
  with e show ?thesis by blast
qed

lemma ToLower_base64: "ToLower u ''base64'' = ''base64''"
  by (simp add: ToLower_def lower_def is_ascii_def)

lemma Atoi_77a7: "Atoi ''77a7'' = Inl \<lparr>Func = ''Atoi'', Num = ''77a7'', Err = ErrSyntax\<rparr>"
  by (simp add: Atoi_def is_digit_def)

lemma refused_bags:
  "NewTCPListener tcp_deps0 no_name_options = Inl NameRequired"
  "NewTCPListener tcp_deps0 bad_interface_options = Inl (InvalidInterface ''localhost'')"
  "NewTCPListener tcp_deps0 bad_port_options =
     Inl (PortConversion \<lparr>Func = ''Atoi'', Num = ''77a7'', Err = ErrSyntax\<rparr>)"
  "NewTCPListener tcp_deps0 bad_transform_options = Inl (UnhandledTransform ''base64'')"
  by (simp_all add: factory_eval no_name_options_def bad_interface_options_def
      bad_port_options_def bad_transform_options_def Atoi_77a7 ToLower_base64)

text \<open>
  One refused bag for each validation, each sent through the service that holds the
  default TCP listener.
\<close>

theorem NewTCPListener_validation_witness:
  "get no_name_options ''Name'' = [] \<and>
   NewTCPListener (tcp_env deps0) no_name_options = Inl NameRequired \<and>
   NewListener deps0 tcp_service no_name_options =
     (Inl (Error (NewListenerError NameRequired)), tcp_service) \<and>
   ParseIP (tcp_env deps0) (get bad_interface_options ''Interface'') = None \<and>
   NewTCPListener (tcp_env deps0) bad_interface_options = Inl (InvalidInterface ''localhost'') \<and>
   NewListener deps0 tcp_service bad_interface_options =
     (Inl (Error (NewListenerError (InvalidInterface ''localhost''))), tcp_service) \<and>
   \<not> numeric (get bad_port_options ''Port'') \<and>
   NewTCPListener (tcp_env deps0) bad_port_options =
     Inl (PortConversion \<lparr>Func = ''Atoi'', Num = ''77a7'', Err = ErrSyntax\<rparr>) \<and>
   NewListener deps0 tcp_service bad_port_options =
     (Inl (Error (NewListenerError
        (PortConversion \<lparr>Func = ''Atoi'', Num = ''77a7'', Err = ErrSyntax\<rparr>))), tcp_service) \<and>
   bad_transform_options ''Transforms'' = Some ''aes,base64'' \<and>
   \<not> recognized (Map_ToLower (tcp_env deps0)) ''base64'' \<and>
   NewTCPListener (tcp_env deps0) bad_transform_options = Inl (UnhandledTransform ''base64'') \<and>
   NewListener deps0 tcp_service bad_transform_options =
     (Inl (Error (NewListenerError (UnhandledTransform ''base64''))), tcp_service)"
proof -
  have env: "tcp_env deps0 = tcp_deps0" by (simp add: deps0_def)
  have step: "NewListener deps0 tcp_service opts = (Inl (Error (NewListenerError e0)), tcp_service)"
    if bad: "get opts ''Name'' = [] \<or> get opts ''Interface'' = [] \<or>
         ParseIP (tcp_env deps0) (get opts ''Interface'') = None \<or>
         \<not> numeric (get opts ''Port'') \<or>
         (\<exists>v. opts ''Transforms'' = Some v \<and>
            (\<exists>t \<in> set (Split v CHR '',''). \<not> recognized (Map_ToLower (tcp_env deps0)) t))"
      and ev: "NewTCPListener tcp_deps0 opts = Inl e0"
      and p: "opts ''Protocol'' = Some ''TCP''"
    for opts e0
  proof -
    from NewTCPListener_validation [OF bad] obtain e where
      e: "NewTCPListener (tcp_env deps0) opts = Inl e" and
      nl: "\<forall>p ls. opts ''Protocol'' = Some p \<and>
                    ToLower (Map_ToLower (tcp_env deps0)) p = ''tcp'' \<longrightarrow>
             NewListener deps0 ls opts = (Inl (Error (NewListenerError e)), ls)"
      by blast
    from e ev have "e = e0" by (simp add: env)
    with nl p show ?thesis by (simp add: ToLower_simps)
  qed
  have n: "get no_name_options ''Name'' = []"
    by (simp add: no_name_options_def get_def)
  have i: "ParseIP (tcp_env deps0) (get bad_interface_options ''Interface'') = None"
    by (simp add: env bad_interface_options_def get_def tcp_deps0_def loopback_only_def)
  have q: "\<not> numeric (get bad_port_options ''Port'')"
    by (simp add: bad_port_options_def get_def numeric_def is_digit_def)
  have t: "bad_transform_options ''Transforms'' = Some ''aes,base64''"
    by (simp add: bad_transform_options_def)
  have u: "\<not> recognized (Map_ToLower (tcp_env deps0)) ''base64''"
    by (simp add: recognized_def ToLower_base64)
  have tu: "\<exists>v. bad_transform_options ''Transforms'' = Some v \<and>
              (\<exists>t \<in> set (Split v CHR '',''). \<not> recognized (Map_ToLower (tcp_env deps0)) t)"
    using t u by simp
  have pr: "no_name_options ''Protocol'' = Some ''TCP''"
    "bad_interface_options ''Protocol'' = Some ''TCP''"
    "bad_port_options ''Protocol'' = Some ''TCP''"
    "bad_transform_options ''Protocol'' = Some ''TCP''"
    by (simp_all add: no_name_options_def bad_interface_options_def bad_port_options_def
        bad_transform_options_def default_options_def tcp_DefaultOptions_def)
  note s1 = step [OF _ refused_bags(1) pr(1)]
    and s2 = step [OF _ refused_bags(2) pr(2)]
    and s3 = step [OF _ refused_bags(3) pr(3)]
    and s4 = step [OF _ refused_bags(4) pr(4)]
  show ?thesis
    using n i q t u s1 s2 s3 s4 tu refused_bags unfolding env by blast
qed

end
